theory Spec2Isabelle
  imports Main "HOL-Library.Word"
begin

section \<open>Host RPC transport (package rhp)\<close>

subsection \<open>Bytes and fixed-width integers on the wire\<close>

type_synonym byte = "8 word"
type_synonym uint64 = "64 word"

text \<open>
  \<open>encoding/binary\<close>: a \<open>uint64\<close> is eight bytes, least significant first
  (\<open>LittleEndian\<close>) or most significant first (\<open>BigEndian\<close>). \<open>le_bytes k v\<close> are
  the \<open>k\<close> low bytes of \<open>v\<close>, \<open>le_nat\<close> is the value of a byte string read least
  significant byte first.
\<close>

fun le_bytes :: "nat \<Rightarrow> nat \<Rightarrow> byte list" where
  "le_bytes 0 v = []"
| "le_bytes (Suc k) v = of_nat (v mod 256) # le_bytes k (v div 256)"

fun le_nat :: "byte list \<Rightarrow> nat" where
  "le_nat [] = 0"
| "le_nat (b # bs) = unat b + 256 * le_nat bs"

definition LittleEndian_PutUint64 :: "uint64 \<Rightarrow> byte list" where
  "LittleEndian_PutUint64 v = le_bytes 8 (unat v)"

definition LittleEndian_Uint64 :: "byte list \<Rightarrow> uint64" where
  "LittleEndian_Uint64 b = of_nat (le_nat (take 8 b))"

definition BigEndian_PutUint64 :: "uint64 \<Rightarrow> byte list" where
  "BigEndian_PutUint64 v = rev (le_bytes 8 (unat v))"

definition BigEndian_Uint64 :: "byte list \<Rightarrow> uint64" where
  "BigEndian_Uint64 b = of_nat (le_nat (rev (take 8 b)))"

subsection \<open>Errors\<close>

text \<open>
  Every \<open>errors.New\<close> call site is an error value of its own, as it is in Go. Errors
  produced by collaborators that are not part of the examined code (the object encoder and
  decoder, the network) carry their message in \<open>External\<close> and \<open>DecodeError\<close>.
  \<open>Wrapped fn e\<close> is \<open>fmt.Errorf("%s: %w", fn, e)\<close>.
\<close>

record RPCError =
  rpc_Type :: "byte list"
  rpc_Data :: "byte list"
  rpc_Description :: string

datatype error =
    EOF
  | ErrUnexpectedEOF
  | SubscriberError "byte list"
  | ErrInvalidOutputLength
  | ErrRPC RPCError
  | DecodeError string
  | External string
  | Wrapped string error

text \<open>\<open>wrapErr\<close>: a non-nil error is prefixed with the name of the RPC.\<close>

definition wrapErr :: "string \<Rightarrow> error + 'a \<Rightarrow> error + 'a" where
  "wrapErr fnName r = (case r of Inl e \<Rightarrow> Inl (Wrapped fnName e) | Inr v \<Rightarrow> Inr v)"

subsection \<open>The multiplexer's stream\<close>

text \<open>
  \<open>mux.Stream\<close> is the collaborator below the transport. Its state here: the bytes the host
  has sent, in the pieces in which successive \<open>Read\<close> calls will see them (a \<open>Read\<close>
  returns at most one piece, and at most as many bytes as the buffer holds; when no piece
  is left the stream is at its end), the bytes written so far, and the error every
  \<open>Write\<close> fails with, if any.
\<close>

record mux_stream =
  incoming :: "byte list list"
  outgoing :: "byte list"
  write_error :: "string option"

definition mux_Read :: "nat \<Rightarrow> mux_stream \<Rightarrow> (byte list \<times> error option) \<times> mux_stream" where
  "mux_Read n m =
     (case incoming m of
        [] \<Rightarrow> (([], Some EOF), m)
      | c # cs \<Rightarrow>
          if length c \<le> n then ((c, None), m\<lparr>incoming := cs\<rparr>)
          else ((take n c, None), m\<lparr>incoming := drop n c # cs\<rparr>))"

definition mux_Write :: "byte list \<Rightarrow> mux_stream \<Rightarrow> error option \<times> mux_stream" where
  "mux_Write b m =
     (case write_error m of
        Some e \<Rightarrow> (Some (External e), m)
      | None \<Rightarrow> (None, m\<lparr>outgoing := outgoing m @ b\<rparr>))"

text \<open>
  \<open>io.ReadFull(r, buf)\<close> is \<open>io.ReadAtLeast(r, buf, len(buf))\<close>: it calls \<open>Read\<close> on
  the unfilled rest of the buffer until the buffer is full or a \<open>Read\<close> fails. With the
  buffer full the error is dropped; with some but not all bytes read, \<open>EOF\<close> becomes
  \<open>ErrUnexpectedEOF\<close>. \<open>buf\<close> holds the bytes read so far.
\<close>

definition readFull_result :: "nat \<Rightarrow> byte list \<Rightarrow> error option \<Rightarrow> error option" where
  "readFull_result mn buf err =
     (if mn \<le> length buf then None
      else if 0 < length buf \<and> err = Some EOF then Some ErrUnexpectedEOF
      else err)"

function readFull_loop :: "nat \<Rightarrow> byte list \<Rightarrow> mux_stream \<Rightarrow> (byte list \<times> error option) \<times> mux_stream" where
  "readFull_loop mn buf m =
     (if length buf < mn then
        (case mux_Read (mn - length buf) m of
           ((bs, None), m') \<Rightarrow> readFull_loop mn (buf @ bs) m'
         | ((bs, Some e), m') \<Rightarrow> ((buf @ bs, readFull_result mn (buf @ bs) (Some e)), m'))
      else ((buf, None), m))"
  by pat_completeness auto
termination
  by (relation "measure (\<lambda>(mn, buf, m). (mn - length buf) + length (incoming m))")
     (auto simp: mux_Read_def split: list.splits if_splits)

declare readFull_loop.simps [simp del]

definition io_ReadFull :: "nat \<Rightarrow> mux_stream \<Rightarrow> (byte list \<times> error option) \<times> mux_stream" where
  "io_ReadFull n m = readFull_loop n [] m"

subsection \<open>The stream wrapper and its once-only subscriber response\<close>

text \<open>
  \<open>stream\<close> wraps \<open>mux.Stream\<close>. \<open>once_done\<close> is the state of the \<open>sync.Once\<close>:
  whether \<open>readSubscriberResponse\<close> has run.
\<close>

record stream =
  Stream :: mux_stream
  once_done :: bool
  readSubscriberResponseErr :: "error option"

definition readSubscriberResponse :: "stream \<Rightarrow> stream" where
  "readSubscriberResponse s =
     (case io_ReadFull 16 (Stream s) of
        ((buf, Some e), m1) \<Rightarrow> s\<lparr>Stream := m1, readSubscriberResponseErr := Some e\<rparr>
      | ((buf, None), m1) \<Rightarrow>
          (let errLen = LittleEndian_Uint64 (drop 8 buf) in
           if errLen = 0 then s\<lparr>Stream := m1, readSubscriberResponseErr := None\<rparr>
           else
             (case io_ReadFull (unat errLen) m1 of
                ((buf2, Some e), m2) \<Rightarrow> s\<lparr>Stream := m2, readSubscriberResponseErr := Some e\<rparr>
              | ((buf2, None), m2) \<Rightarrow>
                  s\<lparr>Stream := m2, readSubscriberResponseErr := Some (SubscriberError buf2)\<rparr>)))"

text \<open>\<open>s.once.Do(s.readSubscriberResponse)\<close>\<close>

definition once_Do :: "stream \<Rightarrow> stream" where
  "once_Do s = (if once_done s then s else (readSubscriberResponse s)\<lparr>once_done := True\<rparr>)"

text \<open>
  \<open>Read(b)\<close> with \<open>len(b) = n\<close>: the bytes placed at the front of \<open>b\<close> and the error.
\<close>

definition stream_Read :: "nat \<Rightarrow> stream \<Rightarrow> (byte list \<times> error option) \<times> stream" where
  "stream_Read n s =
     (let s1 = once_Do s in
      case readSubscriberResponseErr s1 of
        Some e \<Rightarrow> (([], Some e), s1)
      | None \<Rightarrow> (case mux_Read n (Stream s1) of (r, m') \<Rightarrow> (r, s1\<lparr>Stream := m'\<rparr>)))"

definition stream_Write :: "byte list \<Rightarrow> stream \<Rightarrow> error option \<times> stream" where
  "stream_Write b s = (case mux_Write b (Stream s) of (e, m') \<Rightarrow> (e, s\<lparr>Stream := m'\<rparr>))"

text \<open>
  A \<open>Transport\<close> holds the mux; of the mux, what matters is the stream its next
  \<open>DialStream\<close> call opens. \<open>DialStream\<close> writes the subscriber frame
  \<open>[u64 12][u64 4]["host"]\<close>, ignoring the result of the write, and returns the wrapper
  with the \<open>sync.Once\<close> unused.
\<close>

record Transport =
  mux :: mux_stream

definition subscriber_frame :: "byte list" where
  "subscriber_frame =
     (let name = map (of_nat \<circ> of_char) ''host'' :: byte list in
      LittleEndian_PutUint64 (of_nat (8 + length name)) @ LittleEndian_PutUint64 (of_nat (length name)) @ name)"

definition DialStream :: "Transport \<Rightarrow> stream" where
  "DialStream t =
     \<lparr>Stream = snd (mux_Write subscriber_frame (mux t)), once_done = False,
      readSubscriberResponseErr = None\<rparr>"

text \<open>
  A sequence of \<open>Read\<close> calls with buffer sizes \<open>ns\<close>: the result of every call, in
  order, and the stream after the last.
\<close>

fun stream_Reads :: "nat list \<Rightarrow> stream \<Rightarrow> (byte list \<times> error option) list \<times> stream" where
  "stream_Reads [] s = ([], s)"
| "stream_Reads (n # ns) s =
     (case stream_Read n s of (r, s') \<Rightarrow>
        (case stream_Reads ns s' of (rs, s'') \<Rightarrow> (r # rs, s'')))"

text \<open>
  The subscriber-ack frame the host sends first on a stream: eight reserved bytes, the
  length of the error as a little-endian \<open>u64\<close>, the error bytes.
\<close>

definition ack_frame :: "byte list \<Rightarrow> byte list \<Rightarrow> byte list" where
  "ack_frame reserved e = reserved @ LittleEndian_PutUint64 (of_nat (length e)) @ e"

subsection \<open>Responses, payment and the registry RPCs\<close>

text \<open>
  The object encoder and decoder (\<open>types.Encoder\<close>, \<open>types.Decoder\<close>, the
  \<open>EncodeTo\<close> and \<open>DecodeFrom\<close> methods) are collaborators. An encoded object is the
  byte string the encoder produces for it. A decoder touches the stream only by calling
  \<open>Read\<close>: it is a program that either returns, or asks for a \<open>Read\<close> with a buffer
  of some size and continues with what that \<open>Read\<close> returned.
\<close>

datatype 'a reader_prog =
    Return 'a
  | ReadThen nat "byte list \<times> error option \<Rightarrow> 'a reader_prog"

primrec run_reader :: "'a reader_prog \<Rightarrow> stream \<Rightarrow> 'a \<times> stream" where
  "run_reader (Return x) s = (x, s)"
| "run_reader (ReadThen n k) s = (case stream_Read n s of (r, s') \<Rightarrow> run_reader (k r) s')"

datatype 'a rpcResponse = ResponseError RPCError | ResponseData 'a

text \<open>
  \<open>d.ReadPrefix(); rr.DecodeFrom(d)\<close> for a response expected to hold an \<open>'a\<close>:
  \<open>Inl msg\<close> when the decoder ends with \<open>d.Err() != nil\<close>.
\<close>

type_synonym 'a decoder = "(string + 'a rpcResponse) reader_prog"

text \<open>
  \<open>writeResponse(w, resp)\<close>, with \<open>body\<close> the encoding of \<open>rpcResponse{nil, resp}\<close>:
  the body behind its length as a little-endian \<open>u64\<close>.
\<close>

definition writeResponse :: "byte list \<Rightarrow> stream \<Rightarrow> error option \<times> stream" where
  "writeResponse body w = stream_Write (LittleEndian_PutUint64 (of_nat (length body)) @ body) w"

definition readResponse :: "'a decoder \<Rightarrow> stream \<Rightarrow> (error + 'a) \<times> stream" where
  "readResponse dec r =
     (case run_reader dec r of
        (Inl msg, r') \<Rightarrow> (Inl (DecodeError msg), r')
      | (Inr (ResponseError e), r') \<Rightarrow> (Inl (ErrRPC e), r')
      | (Inr (ResponseData x), r') \<Rightarrow> (Inr x, r'))"

datatype PaymentMethod =
    PayByContractRequest "byte list" "byte list"
  | PayByEphemeralAccountRequest "byte list"

record RegistryKey =
  rk_PublicKey :: "byte list"
  rk_Tweak :: "byte list"

record RegistryValue =
  Data :: "byte list"
  Revision :: uint64
  Type :: byte
  Signature :: "byte list"

record rpcExecuteProgramResponse =
  OutputLength :: uint64

text \<open>
  What the RPCs take from the collaborators: the encodings of the objects they send, the
  decoders of the objects they receive, and the specifier of the ExecuteProgram RPC. The
  first argument of \<open>PayByContractRequest\<close> is the request as the caller built it, the
  second its \<open>HostSignature\<close> field.
\<close>

record codec =
  enc_paymentType :: "PaymentMethod \<Rightarrow> byte list"
  enc_payment :: "PaymentMethod \<Rightarrow> byte list"
  dec_paymentResponse :: "(byte list) decoder"
  rpcExecuteProgramID :: "byte list"
  enc_readRegistryRequest :: "RegistryKey \<Rightarrow> byte list"
  enc_updateRegistryRequest :: "RegistryKey \<Rightarrow> RegistryValue \<Rightarrow> byte list"
  dec_specifier :: "(byte list) decoder"
  dec_executeProgramResponse :: "rpcExecuteProgramResponse decoder"

definition processPayment :: "codec \<Rightarrow> PaymentMethod \<Rightarrow> stream \<Rightarrow> (error option \<times> PaymentMethod) \<times> stream" where
  "processPayment cd payment rw =
     (case writeResponse (enc_paymentType cd payment) rw of
        (Some e, rw1) \<Rightarrow> ((Some e, payment), rw1)
      | (None, rw1) \<Rightarrow>
          (case writeResponse (enc_payment cd payment) rw1 of
             (Some e, rw2) \<Rightarrow> ((Some e, payment), rw2)
           | (None, rw2) \<Rightarrow>
               (case payment of
                  PayByContractRequest req sg \<Rightarrow>
                    (case readResponse (dec_paymentResponse cd) rw2 of
                       (Inl e, rw3) \<Rightarrow> ((Some e, payment), rw3)
                     | (Inr sg', rw3) \<Rightarrow> ((None, PayByContractRequest req sg'), rw3))
                | PayByEphemeralAccountRequest req \<Rightarrow> ((None, payment), rw2))))"

text \<open>
  Both registry RPCs run the same exchange up to the response header: write the RPC
  specifier, pay, write the request, read the cancellation token (its result ignored),
  read the response header. \<open>req\<close> is the encoded \<open>rpcExecuteProgramRequest\<close>.
\<close>

definition executeProgram :: "codec \<Rightarrow> byte list \<Rightarrow> PaymentMethod \<Rightarrow> stream \<Rightarrow> (error + rpcExecuteProgramResponse) \<times> stream" where
  "executeProgram cd req payment s =
     (case stream_Write (rpcExecuteProgramID cd) s of
        (Some e, s1) \<Rightarrow> (Inl e, s1)
      | (None, s1) \<Rightarrow>
          (case processPayment cd payment s1 of
             ((Some e, p'), s2) \<Rightarrow> (Inl e, s2)
           | ((None, p'), s2) \<Rightarrow>
               (case writeResponse req s2 of
                  (Some e, s3) \<Rightarrow> (Inl e, s3)
                | (None, s3) \<Rightarrow>
                    (case readResponse (dec_specifier cd) s3 of
                       (cancellationToken, s4) \<Rightarrow> readResponse (dec_executeProgramResponse cd) s4))))"

text \<open>
  The buffer of \<open>n\<close> zero bytes after a \<open>Read\<close> that placed \<open>bs\<close> at its front.
\<close>

definition buffer_after_Read :: "nat \<Rightarrow> byte list \<Rightarrow> byte list" where
  "buffer_after_Read n bs = bs @ replicate (n - length bs) 0"

definition RPCReadRegistry :: "codec \<Rightarrow> Transport \<Rightarrow> PaymentMethod \<Rightarrow> RegistryKey \<Rightarrow> (error + RegistryValue) \<times> stream" where
  "RPCReadRegistry cd t payment key =
     (let s = DialStream t in
      case executeProgram cd (enc_readRegistryRequest cd key) payment s of
        (Inl e, s1) \<Rightarrow> (wrapErr ''ReadRegistry'' (Inl e), s1)
      | (Inr resp, s1) \<Rightarrow>
          if OutputLength resp < 64 + 8 + 1 then (wrapErr ''ReadRegistry'' (Inl ErrInvalidOutputLength), s1)
          else
            (case stream_Read (unat (OutputLength resp)) s1 of
               ((bs, Some e), s2) \<Rightarrow> (wrapErr ''ReadRegistry'' (Inl e), s2)
             | ((bs, None), s2) \<Rightarrow>
                 (let buf = buffer_after_Read (unat (OutputLength resp)) bs in
                  (wrapErr ''ReadRegistry''
                     (Inr \<lparr>Data = take (length buf - 1 - 72) (drop 72 buf),
                           Revision = BigEndian_Uint64 (take 8 (drop 64 buf)),
                           Type = buf ! (length buf - 1),
                           Signature = take 64 buf\<rparr>), s2))))"

definition RPCUpdateRegistry :: "codec \<Rightarrow> Transport \<Rightarrow> PaymentMethod \<Rightarrow> RegistryKey \<Rightarrow> RegistryValue \<Rightarrow> (error + unit) \<times> stream" where
  "RPCUpdateRegistry cd t payment key v =
     (let s = DialStream t in
      case executeProgram cd (enc_updateRegistryRequest cd key v) payment s of
        (Inl e, s1) \<Rightarrow> (wrapErr ''UpdateRegistry'' (Inl e), s1)
      | (Inr resp, s1) \<Rightarrow>
          if OutputLength resp \<noteq> 0 then (wrapErr ''UpdateRegistry'' (Inl ErrInvalidOutputLength), s1)
          else (wrapErr ''UpdateRegistry'' (Inr ()), s1))"

text \<open>
  The error the wrapper has recorded for its subscriber response is not the output-length
  error of the registry RPCs.
\<close>

definition no_iol :: "stream \<Rightarrow> bool" where
  "no_iol s \<longleftrightarrow> readSubscriberResponseErr s \<noteq> Some ErrInvalidOutputLength"

subsection \<open>Example hosts\<close>

text \<open>
  A codec whose encodings are single bytes, whose cancellation token is one byte and whose
  response header is the output length alone; hosts that acknowledge the subscriber without
  and with an error; a host that answers a registry read with a 74-byte output.
\<close>

definition example_codec :: codec where
  "example_codec =
     \<lparr>enc_paymentType = (\<lambda>_. [1]), enc_payment = (\<lambda>_. [2]),
      dec_paymentResponse = Return (Inr (ResponseData [])),
      rpcExecuteProgramID = [3],
      enc_readRegistryRequest = (\<lambda>_. [4]),
      enc_updateRegistryRequest = (\<lambda>_ _. [5]),
      dec_specifier = ReadThen 1 (\<lambda>_. Return (Inr (ResponseData []))),
      dec_executeProgramResponse =
        ReadThen 8 (\<lambda>r. Return (Inr (ResponseData \<lparr>OutputLength = LittleEndian_Uint64 (fst r)\<rparr>)))\<rparr>"

definition example_output :: "byte list" where
  "example_output = replicate 64 1 @ [0,0,0,0,0,0,0,5] @ [42] @ [3]"

definition example_key :: RegistryKey where
  "example_key = \<lparr>rk_PublicKey = [], rk_Tweak = []\<rparr>"

definition example_value :: RegistryValue where
  "example_value = \<lparr>Data = [42], Revision = 5, Type = 3, Signature = replicate 64 1\<rparr>"

definition host_read :: Transport where
  "host_read =
     \<lparr>mux = \<lparr>incoming = [replicate 16 0, [0], [74,0,0,0,0,0,0,0], example_output],
             outgoing = [], write_error = None\<rparr>\<rparr>"

text \<open>
  The same host, its 74-byte output arriving in two pieces of 70 and 4 bytes.
\<close>

definition host_read_split :: Transport where
  "host_read_split =
     \<lparr>mux = \<lparr>incoming = [replicate 16 0, [0], [74,0,0,0,0,0,0,0],
                         replicate 64 1 @ [0,0,0,0,0,0], [0,5,42,3]],
             outgoing = [], write_error = None\<rparr>\<rparr>"

definition host_ack_ok :: Transport where
  "host_ack_ok =
     \<lparr>mux = \<lparr>incoming = [[1,2,3,4,5,6,7,8,0,0], [0,0,0,0,0,0,9,9]],
             outgoing = [], write_error = None\<rparr>\<rparr>"

definition host_ack_err :: Transport where
  "host_ack_err =
     \<lparr>mux = \<lparr>incoming = [[1,2,3,4,5,6,7,8,2,0,0,0,0,0,0,0,110], [111,9,9]],
             outgoing = [], write_error = None\<rparr>\<rparr>"

section \<open>Host resolver (package worker, dialer.go)\<close>

type_synonym publicKey = "256 word"

text \<open>
  \<open>hostCache\<close>: host name to IP address. The lock around the map has no counterpart in
  a sequential model.
\<close>

type_synonym hostCache = "string \<rightharpoonup> string"

definition hostCache_Get :: "hostCache \<Rightarrow> string \<Rightarrow> string option" where
  "hostCache_Get hc hostname = hc hostname"

definition hostCache_Set :: "hostCache \<Rightarrow> string \<Rightarrow> string \<Rightarrow> hostCache" where
  "hostCache_Set hc hostname ip = hc(hostname \<mapsto> ip)"

definition hostCache_Clear :: "hostCache \<Rightarrow> string \<Rightarrow> hostCache" where
  "hostCache_Clear hc hostname = hc(hostname := None)"

text \<open>
  What is outside the dialer, as it answers during one call of \<open>Dial\<close>:
  \<open>net.SplitHostPort\<close>, \<open>net.ResolveIPAddr\<close> (the resolved address as a string),
  \<open>dialer.DialContext\<close> on a \<open>host:port\<close> string, and \<open>bus.Host\<close> (the
  \<open>ResolvedAddresses\<close> of the host it returns). \<open>Inl\<close> carries the error message.
\<close>

record 'c network =
  SplitHostPort :: "string \<Rightarrow> string + string \<times> string"
  ResolveIPAddr :: "string \<Rightarrow> string + string"
  DialContext :: "string \<Rightarrow> string + 'c"
  bus_Host :: "publicKey \<Rightarrow> string + string list"

text \<open>\<open>net.JoinHostPort\<close>: a host containing a colon is put in brackets.\<close>

definition JoinHostPort :: "string \<Rightarrow> string \<Rightarrow> string" where
  "JoinHostPort host port =
     (if CHR '':'' \<in> set host then ''['' @ host @ '']:'' @ port else host @ '':'' @ port)"

datatype dial_error =
    ErrSplitHostPort string
  | ErrDialContext string
  | ErrBusHost string
  | ErrAllMethodsFailed string

text \<open>
  The calls a \<open>Dial\<close> makes to the outside and the writes it makes to the cache, in
  the order in which it makes them.
\<close>

datatype dial_event =
    EvResolve string
  | EvDial string
  | EvBusHost publicKey
  | EvCacheSet string string
  | EvCacheClear string

text \<open>The loop over \<open>hostInfo.ResolvedAddresses\<close>.\<close>

fun dial_addresses :: "'c network \<Rightarrow> string \<Rightarrow> string \<Rightarrow> string \<Rightarrow> string list \<Rightarrow> hostCache
    \<Rightarrow> (dial_error + 'c) \<times> hostCache \<times> dial_event list" where
  "dial_addresses net host port address [] hc = (Inl (ErrAllMethodsFailed address), hc, [])"
| "dial_addresses net host port address (addr # addrs) hc =
     (case DialContext net (JoinHostPort addr port) of
        Inr conn \<Rightarrow>
          (Inr conn, hostCache_Set hc host addr,
           [EvDial (JoinHostPort addr port), EvCacheSet host addr])
      | Inl e \<Rightarrow>
          (case dial_addresses net host port address addrs hc of
             (r, hc', tr) \<Rightarrow> (r, hc', EvDial (JoinHostPort addr port) # tr)))"

text \<open>
  The attempt on the cached address: the connection if the cached address connects, the
  cache afterwards, and the events.
\<close>

definition dial_cached :: "'c network \<Rightarrow> string \<Rightarrow> string \<Rightarrow> hostCache \<Rightarrow> 'c option \<times> hostCache \<times> dial_event list" where
  "dial_cached net host port hc =
     (case hostCache_Get hc host of
        None \<Rightarrow> (None, hc, [])
      | Some cachedIP \<Rightarrow>
          (case DialContext net (JoinHostPort cachedIP port) of
             Inr conn \<Rightarrow> (Some conn, hc, [EvDial (JoinHostPort cachedIP port)])
           | Inl e \<Rightarrow>
               (None, hostCache_Clear hc host,
                [EvDial (JoinHostPort cachedIP port), EvCacheClear host])))"

definition Dial :: "'c network \<Rightarrow> hostCache \<Rightarrow> publicKey \<Rightarrow> string \<Rightarrow> (dial_error + 'c) \<times> hostCache \<times> dial_event list" where
  "Dial net hc hk address =
     (case SplitHostPort net address of
        Inl e \<Rightarrow> (Inl (ErrSplitHostPort e), hc, [])
      | Inr (host, port) \<Rightarrow>
          (case ResolveIPAddr net host of
             Inr ipAddr \<Rightarrow>
               (case DialContext net (JoinHostPort ipAddr port) of
                  Inl e \<Rightarrow> Inl (ErrDialContext e) | Inr conn \<Rightarrow> Inr conn,
                hostCache_Set hc host ipAddr,
                [EvResolve host, EvCacheSet host ipAddr, EvDial (JoinHostPort ipAddr port)])
           | Inl e \<Rightarrow>
               (case dial_cached net host port hc of
                  (Some conn, hc1, tr1) \<Rightarrow> (Inr conn, hc1, EvResolve host # tr1)
                | (None, hc1, tr1) \<Rightarrow>
                    (case bus_Host net hk of
                       Inl e \<Rightarrow> (Inl (ErrBusHost e), hc1, EvResolve host # tr1 @ [EvBusHost hk])
                     | Inr addrs \<Rightarrow>
                         (case dial_addresses net host port address addrs hc1 of
                            (r, hc2, tr2) \<Rightarrow>
                              (r, hc2, EvResolve host # tr1 @ [EvBusHost hk] @ tr2))))))"

text \<open>
  Whether an address connects, and the events of the loop over the directory's addresses
  as the claim describes them: the addresses that fail, in order, then the first that
  connects and its entry into the cache.
\<close>

definition connects :: "'c network \<Rightarrow> string \<Rightarrow> string \<Rightarrow> bool" where
  "connects net port addr = (case DialContext net (JoinHostPort addr port) of Inr _ \<Rightarrow> True | Inl _ \<Rightarrow> False)"

definition directory_events :: "'c network \<Rightarrow> string \<Rightarrow> string \<Rightarrow> string list \<Rightarrow> dial_event list" where
  "directory_events net host port addrs =
     map (\<lambda>a. EvDial (JoinHostPort a port)) (takeWhile (\<lambda>a. \<not> connects net port a) addrs)
     @ (case find (connects net port) addrs of
          None \<Rightarrow> []
        | Some a \<Rightarrow> [EvDial (JoinHostPort a port), EvCacheSet host a])"

subsection \<open>An example network\<close>

text \<open>
  The name \<open>host.example\<close> does not resolve, only \<open>10.0.0.2:9983\<close> accepts
  connections, and the directory knows three addresses of the host.
\<close>

definition example_network :: "nat network" where
  "example_network =
     \<lparr>SplitHostPort = (\<lambda>a. if a = ''host.example:9983'' then Inr (''host.example'', ''9983'') else Inl ''missing port in address''),
      ResolveIPAddr = (\<lambda>h. Inl ''no such host''),
      DialContext = (\<lambda>a. if a = ''10.0.0.2:9983'' then Inr 7 else Inl ''connection refused''),
      bus_Host = (\<lambda>hk. Inr [''10.0.0.1'', ''10.0.0.2'', ''10.0.0.3''])\<rparr>"

definition example_cache :: hostCache where
  "example_cache = [''host.example'' \<mapsto> ''10.0.0.9'']"

section \<open>The SQL store (package stores)\<close>

subsection \<open>Rows and tables\<close>

text \<open>
  Identifiers and keys are fixed-size byte arrays; a \<open>256 word\<close> stands for 32 bytes, and
  \<open>0\<close> is the array of zero bytes, the zero value of the Go type. \<open>types.Currency\<close> is
  the unsigned 128-bit amount of the Sia core library.
\<close>

type_synonym fileContractID = "256 word"
type_synonym hash256 = "256 word"
type_synonym EncryptionKey = "256 word"
type_synonym currency = "128 word"

text \<open>
  One record per table row. The primary key \<open>ID\<close> of the embedded \<open>Model\<close> is the
  first field; the time stamps of \<open>Model\<close> and \<open>dbSlab.LastFailure\<close> are left out.
  Field names carry a prefix for their table: \<open>c_FCID\<close> is \<open>dbContract.FCID\<close>,
  \<open>ac_FCID\<close> is \<open>dbArchivedContract.FCID\<close>, and so on.
\<close>

record dbHost =
  h_ID :: nat
  h_PublicKey :: publicKey
  h_NetAddress :: string

record dbContract =
  c_ID :: nat
  c_FCID :: fileContractID
  c_HostID :: nat
  c_RenewedFrom :: fileContractID
  c_StartHeight :: uint64
  c_TotalCost :: currency
  c_UploadSpending :: currency
  c_DownloadSpending :: currency
  c_FundAccountSpending :: currency

record dbArchivedContract =
  ac_ID :: nat
  ac_FCID :: fileContractID
  ac_Host :: publicKey
  ac_RenewedTo :: fileContractID
  ac_Reason :: string
  ac_UploadSpending :: currency
  ac_DownloadSpending :: currency
  ac_FundAccountSpending :: currency
  ac_StartHeight :: uint64

record dbContractSet =
  cs_ID :: nat
  cs_Name :: string

record dbObject =
  o_ID :: nat
  o_Key :: "byte list"
  o_ObjectID :: string

record dbSlice =
  sl_ID :: nat
  sl_DBObjectID :: nat
  sl_Offset :: "32 word"
  sl_Length :: "32 word"

record dbSlab =
  sb_ID :: nat
  sb_DBSliceID :: nat
  sb_Key :: "byte list"
  sb_MinShards :: "8 word"
  sb_TotalShards :: "8 word"

record dbSector =
  se_ID :: nat
  se_LatestHost :: publicKey
  se_Root :: hash256

record dbShard =
  sh_ID :: nat
  sh_DBSlabID :: nat
  sh_DBSectorID :: nat

text \<open>
  The database: every table as the list of its rows in insertion order, the join tables as
  lists of pairs (\<open>contract_set_contracts\<close>: set and contract; \<open>contract_sectors\<close>:
  contract and sector; \<open>host_sectors\<close>: host and sector), and for every table with an
  auto-increment key the next key to hand out.
\<close>

record store =
  hosts :: "dbHost list"
  contracts :: "dbContract list"
  archived_contracts :: "dbArchivedContract list"
  contract_sets :: "dbContractSet list"
  contract_set_contracts :: "(nat \<times> nat) list"
  objects :: "dbObject list"
  slices :: "dbSlice list"
  slabs :: "dbSlab list"
  sectors :: "dbSector list"
  shards :: "dbShard list"
  contract_sectors :: "(nat \<times> nat) list"
  host_sectors :: "(nat \<times> nat) list"
  next_contract_id :: nat
  next_archived_contract_id :: nat
  next_object_id :: nat
  next_slice_id :: nat
  next_slab_id :: nat
  next_sector_id :: nat
  next_shard_id :: nat

datatype store_error =
    ErrMissingContract publicKey
  | ErrObjectNotFound
  | ErrSlabNotFound "byte list"
  | ErrContractNotFound
  | ErrContractSetNotFound
  | ErrRecordNotFound
  | ErrMissingWhereClause
  | ErrUniqueConstraint string
  | ErrMarshalText string
  | ErrUnmarshalText string
  | ErrPanic


subsection \<open>The query layer\<close>

text \<open>
  \<open>bind_err\<close> is the \<open>if err != nil { return err }\<close> after a step. \<open>Transaction\<close>
  runs a function on the database and keeps its writes only if it returns no error.
\<close>

definition bind_err :: "'e + 'a \<Rightarrow> ('a \<Rightarrow> 'e + 'b) \<Rightarrow> 'e + 'b" where
  "bind_err r f = (case r of Inl e \<Rightarrow> Inl e | Inr x \<Rightarrow> f x)"

definition Transaction :: "(store \<Rightarrow> store_error + 'a \<times> store) \<Rightarrow> store \<Rightarrow> (store_error + 'a) \<times> store" where
  "Transaction fc db = (case fc db of Inl e \<Rightarrow> (Inl e, db) | Inr (x, tx) \<Rightarrow> (Inr x, tx))"

text \<open>
  A condition given as a struct (\<open>Where(&dbContract{FCID: id})\<close>) constrains only the
  fields that are not the zero value of their type: with the zero value in the field there
  is no condition and every row matches. \<open>Take\<close> returns the first row or
  \<open>ErrRecordNotFound\<close>; \<open>Delete\<close> without any condition is refused with
  \<open>ErrMissingWhereClause\<close>.
\<close>

definition where_struct :: "('r \<Rightarrow> 'k) \<Rightarrow> 'k \<Rightarrow> 'k \<Rightarrow> 'r list \<Rightarrow> 'r list" where
  "where_struct field zero v rows = (if v = zero then rows else filter (\<lambda>r. field r = v) rows)"

definition Take :: "'r list \<Rightarrow> store_error + 'r" where
  "Take rows = (case rows of [] \<Rightarrow> Inl ErrRecordNotFound | r # _ \<Rightarrow> Inr r)"

subsection \<open>Contracts\<close>

definition archivalReasonRenewed :: string where
  "archivalReasonRenewed = ''renewed''"

definition slabRetrievalBatchSize :: int where
  "slabRetrievalBatchSize = 100"

definition zero_dbHost :: dbHost where
  "zero_dbHost = \<lparr>h_ID = 0, h_PublicKey = 0, h_NetAddress = []\<rparr>"

text \<open>\<open>Preload("Host")\<close>: the host row the contract points to, if there is one.\<close>

definition preload_Host :: "store \<Rightarrow> dbContract \<Rightarrow> dbHost" where
  "preload_Host tx c =
     (case find (\<lambda>h. h_ID h = c_HostID c) (hosts tx) of Some h \<Rightarrow> h | None \<Rightarrow> zero_dbHost)"

text \<open>\<open>contract\<close> retrieves a contract, with its host, from the store.\<close>

definition contract :: "store \<Rightarrow> fileContractID \<Rightarrow> store_error + dbContract \<times> dbHost" where
  "contract tx fcid =
     (case Take (where_struct c_FCID 0 fcid (contracts tx)) of
        Inl e \<Rightarrow> Inl ErrContractNotFound
      | Inr c \<Rightarrow> Inr (c, preload_Host tx c))"

text \<open>
  \<open>removeContract\<close>. Deleting a contract row deletes, by the cascade declared on the two
  join tables, its memberships in contract sets and its links to sectors.
\<close>

definition removeContract :: "store \<Rightarrow> fileContractID \<Rightarrow> store_error + store" where
  "removeContract tx fcid =
     (if fcid = 0 then Inl ErrMissingWhereClause
      else
        (let gone = map c_ID (filter (\<lambda>c. c_FCID c = fcid) (contracts tx)) in
         Inr (tx\<lparr>contracts := filter (\<lambda>c. c_FCID c \<noteq> fcid) (contracts tx),
                 contract_set_contracts := filter (\<lambda>(s, c). c \<notin> set gone) (contract_set_contracts tx),
                 contract_sectors := filter (\<lambda>(c, s). c \<notin> set gone) (contract_sectors tx)\<rparr>)))"

text \<open>
  Of \<open>rhpv2.ContractRevision\<close> the store uses \<open>ID()\<close> and \<open>HostKey()\<close>.
\<close>

record ContractRevision =
  rev_ID :: fileContractID
  rev_HostKey :: publicKey

text \<open>
  \<open>addContract\<close>: find the host, insert the contract with all spending at zero. The
  column \<open>fcid\<close> is declared unique.
\<close>

definition addContract :: "store \<Rightarrow> ContractRevision \<Rightarrow> currency \<Rightarrow> uint64 \<Rightarrow> fileContractID \<Rightarrow> store_error + dbContract \<times> store" where
  "addContract tx c totalCost startHeight renewedFrom =
     bind_err (Take (where_struct h_PublicKey 0 (rev_HostKey c) (hosts tx))) (\<lambda>host.
       (let new = \<lparr>c_ID = next_contract_id tx, c_FCID = rev_ID c, c_HostID = h_ID host,
                         c_RenewedFrom = renewedFrom, c_StartHeight = startHeight,
                         c_TotalCost = totalCost, c_UploadSpending = 0,
                         c_DownloadSpending = 0, c_FundAccountSpending = 0\<rparr> in
        if rev_ID c \<in> c_FCID ` set (contracts tx) then Inl (ErrUniqueConstraint ''contracts.fcid'')
        else Inr (new, tx\<lparr>contracts := contracts tx @ [new],
                                next_contract_id := Suc (next_contract_id tx)\<rparr>)))"

text \<open>
  \<open>tx.Create(&dbArchivedContract{...})\<close>. The columns \<open>fcid\<close> and \<open>renewed_to\<close> of
  the archive are declared unique.
\<close>

definition create_archived_contract :: "store \<Rightarrow> dbArchivedContract \<Rightarrow> store_error + store" where
  "create_archived_contract tx ac =
     (if ac_FCID ac \<in> ac_FCID ` set (archived_contracts tx) then Inl (ErrUniqueConstraint ''archived_contracts.fcid'')
      else if ac_RenewedTo ac \<in> ac_RenewedTo ` set (archived_contracts tx) then Inl (ErrUniqueConstraint ''archived_contracts.renewed_to'')
      else Inr (tx\<lparr>archived_contracts := archived_contracts tx @ [ac\<lparr>ac_ID := next_archived_contract_id tx\<rparr>],
                   next_archived_contract_id := Suc (next_archived_contract_id tx)\<rparr>))"

record ContractSpending =
  Uploads :: currency
  Downloads :: currency
  FundAccount :: currency

record ContractMetadata =
  cm_ID :: fileContractID
  cm_HostIP :: string
  cm_HostKey :: publicKey
  cm_StartHeight :: uint64
  cm_RenewedFrom :: fileContractID
  cm_TotalCost :: currency
  cm_Spending :: ContractSpending

text \<open>\<open>dbContract.convert\<close>, given the contract's \<open>Host\<close> field.\<close>

definition dbContract_convert :: "dbContract \<Rightarrow> dbHost \<Rightarrow> ContractMetadata" where
  "dbContract_convert c host =
     \<lparr>cm_ID = c_FCID c, cm_HostIP = h_NetAddress host, cm_HostKey = h_PublicKey host,
      cm_StartHeight = c_StartHeight c, cm_RenewedFrom = c_RenewedFrom c,
      cm_TotalCost = c_TotalCost c,
      cm_Spending = \<lparr>Uploads = c_UploadSpending c, Downloads = c_DownloadSpending c,
                      FundAccount = c_FundAccountSpending c\<rparr>\<rparr>"

text \<open>
  The function run inside the transaction of \<open>AddRenewedContract\<close>, and
  \<open>AddRenewedContract\<close>. The renewed contract is returned as \<open>addContract\<close> built it,
  with its \<open>Host\<close> field not loaded.
\<close>

definition renew_tx :: "ContractRevision \<Rightarrow> currency \<Rightarrow> uint64 \<Rightarrow> fileContractID \<Rightarrow> store \<Rightarrow> store_error + dbContract \<times> store" where
  "renew_tx c totalCost startHeight renewedFrom tx =
     bind_err (contract tx renewedFrom) (\<lambda>(oldContract, oldHost).
     bind_err (create_archived_contract tx
                 \<lparr>ac_ID = 0, ac_FCID = c_FCID oldContract, ac_Host = h_PublicKey oldHost,
                  ac_RenewedTo = rev_ID c, ac_Reason = archivalReasonRenewed,
                  ac_UploadSpending = c_UploadSpending oldContract,
                  ac_DownloadSpending = c_DownloadSpending oldContract,
                  ac_FundAccountSpending = c_FundAccountSpending oldContract,
                  ac_StartHeight = c_StartHeight oldContract\<rparr>) (\<lambda>tx1.
     bind_err (removeContract tx1 renewedFrom) (\<lambda>tx2.
     addContract tx2 c totalCost startHeight renewedFrom)))"

definition AddRenewedContract :: "store \<Rightarrow> ContractRevision \<Rightarrow> currency \<Rightarrow> uint64 \<Rightarrow> fileContractID \<Rightarrow> (store_error + ContractMetadata) \<times> store" where
  "AddRenewedContract db c totalCost startHeight renewedFrom =
     (case Transaction (renew_tx c totalCost startHeight renewedFrom) db of
        (Inl e, db') \<Rightarrow> (Inl e, db')
      | (Inr renewed, db') \<Rightarrow> (Inr (dbContract_convert renewed zero_dbHost), db'))"

text \<open>
  \<open>RecordContractSpending\<close>: one transaction per record. \<open>Take\<close> finds the contract by
  its \<open>fcid\<close> (a condition given as a string, so the zero identifier is a value like any
  other); \<open>Save\<close> writes the row with the contract's primary key. A panic of
  \<open>Currency.Add\<close> leaves the function of the transaction, which is rolled back, and
  ends the call: it is the result \<open>ErrPanic\<close>.
\<close>

record ContractSpendingRecord =
  ContractID :: fileContractID
  rec_Uploads :: currency
  rec_Downloads :: currency
  rec_FundAccount :: currency




text \<open>
  The spending of the records addressed to one contract, as a number, and a contract row
  with that spending added.
\<close>

definition spent_on :: "fileContractID \<Rightarrow> (ContractSpendingRecord \<Rightarrow> currency) \<Rightarrow> ContractSpendingRecord list \<Rightarrow> nat" where
  "spent_on fcid amount records = sum_list (map (\<lambda>r. unat (amount r)) (filter (\<lambda>r. ContractID r = fcid) records))"

definition with_spending :: "ContractSpendingRecord list \<Rightarrow> dbContract \<Rightarrow> dbContract" where
  "with_spending records c =
     c\<lparr>c_UploadSpending := c_UploadSpending c + of_nat (spent_on (c_FCID c) rec_Uploads records),
       c_DownloadSpending := c_DownloadSpending c + of_nat (spent_on (c_FCID c) rec_Downloads records),
       c_FundAccountSpending := c_FundAccountSpending c + of_nat (spent_on (c_FCID c) rec_FundAccount records)\<rparr>"


subsection \<open>Objects, slabs and sectors\<close>

text \<open>
  The types of package \<open>object\<close>. A \<open>SlabSlice\<close> embeds its \<open>Slab\<close>. The text form
  of an encryption key (\<open>MarshalText\<close>, \<open>UnmarshalText\<close>) is defined outside the examined
  code and is a parameter; \<open>Inl\<close> carries the error message. A host-to-contract map
  (\<open>map[types.PublicKey]types.FileContractID\<close>) is given by a list of its entries and read
  with \<open>map_of\<close>.
\<close>

record Sector =
  Host :: publicKey
  Root :: hash256

record Slab =
  Key :: EncryptionKey
  MinShards :: "8 word"
  Shards :: "Sector list"

record SlabSlice = Slab +
  Offset :: "32 word"
  Length :: "32 word"

record Object =
  object_Key :: EncryptionKey
  Slabs :: "SlabSlice list"

record key_codec =
  MarshalText :: "EncryptionKey \<Rightarrow> string + byte list"
  UnmarshalText :: "byte list \<Rightarrow> string + EncryptionKey"

type_synonym usedContracts = "(publicKey \<times> fileContractID) list"

text \<open>\<open>usedContracts[host]\<close>: the zero identifier for a host that is not a key.\<close>

definition used_contract :: "usedContracts \<Rightarrow> publicKey \<Rightarrow> fileContractID" where
  "used_contract uc host = (case map_of uc host of Some fcid \<Rightarrow> fcid | None \<Rightarrow> 0)"

definition marshal_key :: "key_codec \<Rightarrow> EncryptionKey \<Rightarrow> store_error + byte list" where
  "marshal_key kc k = (case MarshalText kc k of Inl msg \<Rightarrow> Inl (ErrMarshalText msg) | Inr b \<Rightarrow> Inr b)"

definition unmarshal_key :: "key_codec \<Rightarrow> byte list \<Rightarrow> store_error + EncryptionKey" where
  "unmarshal_key kc b = (case UnmarshalText kc b of Inl msg \<Rightarrow> Inl (ErrUnmarshalText msg) | Inr k \<Rightarrow> Inr k)"

text \<open>A loop whose body can fail: it stops at the first error.\<close>

fun foldE :: "('s \<Rightarrow> 'a \<Rightarrow> 'e + 's) \<Rightarrow> 's \<Rightarrow> 'a list \<Rightarrow> 'e + 's" where
  "foldE f s [] = Inr s"
| "foldE f s (x # xs) = (case f s x of Inl e \<Rightarrow> Inl e | Inr s' \<Rightarrow> foldE f s' xs)"

fun mapE :: "('a \<Rightarrow> 'e + 'b) \<Rightarrow> 'a list \<Rightarrow> 'e + 'b list" where
  "mapE f [] = Inr []"
| "mapE f (x # xs) =
     (case f x of
        Inl e \<Rightarrow> Inl e
      | Inr y \<Rightarrow> (case mapE f xs of Inl e \<Rightarrow> Inl e | Inr ys \<Rightarrow> Inr (y # ys)))"

text \<open>
  \<open>removeObject\<close>. The delete cascades from the object to its slices, from the slices to
  their slabs and from the slabs to their shards; sector rows stay.
\<close>

definition removeObject :: "store \<Rightarrow> string \<Rightarrow> store_error + store" where
  "removeObject tx key =
     (if key = [] then Inl ErrMissingWhereClause
      else
        (let gone_objects = map o_ID (filter (\<lambda>ob. o_ObjectID ob = key) (objects tx));
             gone_slices = map sl_ID (filter (\<lambda>sl. sl_DBObjectID sl \<in> set gone_objects) (slices tx));
             gone_slabs = map sb_ID (filter (\<lambda>sb. sb_DBSliceID sb \<in> set gone_slices) (slabs tx)) in
         Inr (tx\<lparr>objects := filter (\<lambda>ob. o_ObjectID ob \<noteq> key) (objects tx),
                 slices := filter (\<lambda>sl. sl_DBObjectID sl \<notin> set gone_objects) (slices tx),
                 slabs := filter (\<lambda>sb. sb_DBSliceID sb \<notin> set gone_slices) (slabs tx),
                 shards := filter (\<lambda>sh. sh_DBSlabID sh \<notin> set gone_slabs) (shards tx)\<rparr>)))"

text \<open>
  \<open>Where(dbSector{Root: root}).Assign(dbSector{LatestHost: host}).FirstOrCreate(&sector)\<close>:
  the sector with that root gets the latest host assigned, unless the host is the zero
  value; if there is no such sector it is created. The root is a non-nil byte slice and
  always a condition.
\<close>

definition FirstOrCreate_sector :: "store \<Rightarrow> hash256 \<Rightarrow> publicKey \<Rightarrow> dbSector \<times> store" where
  "FirstOrCreate_sector tx root host =
     (case filter (\<lambda>s. se_Root s = root) (sectors tx) of
        [] \<Rightarrow>
          (let sector = \<lparr>se_ID = next_sector_id tx, se_LatestHost = host, se_Root = root\<rparr> in
           (sector, tx\<lparr>sectors := sectors tx @ [sector], next_sector_id := Suc (next_sector_id tx)\<rparr>))
      | s # _ \<Rightarrow>
          if host = 0 then (s, tx)
          else (s\<lparr>se_LatestHost := host\<rparr>,
                tx\<lparr>sectors := map (\<lambda>x. if se_ID x = se_ID s then x\<lparr>se_LatestHost := host\<rparr> else x) (sectors tx)\<rparr>))"

definition Create_shard :: "store \<Rightarrow> nat \<Rightarrow> nat \<Rightarrow> store" where
  "Create_shard tx slabID sectorID =
     tx\<lparr>shards := shards tx @ [\<lparr>sh_ID = next_shard_id tx, sh_DBSlabID = slabID, sh_DBSectorID = sectorID\<rparr>],
        next_shard_id := Suc (next_shard_id tx)\<rparr>"

text \<open>
  \<open>Association("Contracts").Append\<close> and \<open>Association("Hosts").Append\<close> on a sector:
  the pair is inserted into the join table unless it is there.
\<close>

definition Append_contract :: "store \<Rightarrow> nat \<Rightarrow> nat \<Rightarrow> store" where
  "Append_contract tx sectorID contractID =
     (if (contractID, sectorID) \<in> set (contract_sectors tx) then tx
      else tx\<lparr>contract_sectors := contract_sectors tx @ [(contractID, sectorID)]\<rparr>)"

definition Append_host :: "store \<Rightarrow> nat \<Rightarrow> nat \<Rightarrow> store" where
  "Append_host tx sectorID hostID =
     (if (hostID, sectorID) \<in> set (host_sectors tx) then tx
      else tx\<lparr>host_sectors := host_sectors tx @ [(hostID, sectorID)]\<rparr>)"

subsection \<open>UpdateObject\<close>

text \<open>The sanity check: the first shard, in order, whose host has no contract.\<close>

definition missing_contract :: "Object \<Rightarrow> usedContracts \<Rightarrow> publicKey option" where
  "missing_contract obj uc =
     (case filter (\<lambda>h. map_of uc h = None) (concat (map (\<lambda>ss. map Host (Shards ss)) (Slabs obj))) of
        [] \<Rightarrow> None
      | h # _ \<Rightarrow> Some h)"

text \<open>The body of the loop over the shards of a slice.\<close>

definition update_object_shard :: "usedContracts \<Rightarrow> nat \<Rightarrow> store \<Rightarrow> Sector \<Rightarrow> store" where
  "update_object_shard uc slabID tx shard =
     (let fcid = used_contract uc (Host shard) in
      case FirstOrCreate_sector tx (Root shard) (Host shard) of
        (sector, tx1) \<Rightarrow>
          (let tx2 = Create_shard tx1 slabID (se_ID sector);
               tx3 = (case Take (where_struct c_FCID 0 fcid (contracts tx2)) of
                        Inr con \<Rightarrow> Append_contract tx2 (se_ID sector) (c_ID con)
                      | Inl e \<Rightarrow> tx2) in
           case Take (where_struct h_PublicKey 0 (Host shard) (hosts tx3)) of
             Inr host \<Rightarrow> Append_host tx3 (se_ID sector) (h_ID host)
           | Inl e \<Rightarrow> tx3))"

text \<open>
  The body of the loop over the slices: create the slice, create the slab (the column
  \<open>key\<close> of the slabs is declared unique), then the shards.
\<close>

definition update_object_slice :: "key_codec \<Rightarrow> usedContracts \<Rightarrow> nat \<Rightarrow> store \<Rightarrow> SlabSlice \<Rightarrow> store_error + store" where
  "update_object_slice kc uc objID tx ss =
     (let slice = \<lparr>sl_ID = next_slice_id tx, sl_DBObjectID = objID, sl_Offset = Offset ss, sl_Length = Length ss\<rparr>;
          tx1 = tx\<lparr>slices := slices tx @ [slice], next_slice_id := Suc (next_slice_id tx)\<rparr> in
      bind_err (marshal_key kc (Key ss)) (\<lambda>slabKey.
        if slabKey \<in> sb_Key ` set (slabs tx1) then Inl (ErrUniqueConstraint ''slabs.key'')
        else
          (let slab = \<lparr>sb_ID = next_slab_id tx1, sb_DBSliceID = sl_ID slice, sb_Key = slabKey,
                        sb_MinShards = MinShards ss, sb_TotalShards = of_nat (length (Shards ss))\<rparr>;
               tx2 = tx1\<lparr>slabs := slabs tx1 @ [slab], next_slab_id := Suc (next_slab_id tx1)\<rparr> in
           Inr (foldl (update_object_shard uc (sb_ID slab)) tx2 (Shards ss)))))"

text \<open>
  The function run inside the transaction. After \<open>removeObject\<close> no object has the key,
  so the unique \<open>object_id\<close> cannot refuse the insert.
\<close>

definition update_object_tx :: "key_codec \<Rightarrow> string \<Rightarrow> Object \<Rightarrow> usedContracts \<Rightarrow> store \<Rightarrow> store_error + unit \<times> store" where
  "update_object_tx kc key obj uc tx =
     bind_err (removeObject tx key) (\<lambda>tx1.
     bind_err (marshal_key kc (object_Key obj)) (\<lambda>objKey.
       (let row = \<lparr>o_ID = next_object_id tx1, o_Key = objKey, o_ObjectID = key\<rparr>;
            tx2 = tx1\<lparr>objects := objects tx1 @ [row], next_object_id := Suc (next_object_id tx1)\<rparr> in
        bind_err (foldE (update_object_slice kc uc (o_ID row)) tx2 (Slabs obj)) (\<lambda>tx3. Inr ((), tx3)))))"

definition UpdateObject :: "key_codec \<Rightarrow> store \<Rightarrow> string \<Rightarrow> Object \<Rightarrow> usedContracts \<Rightarrow> (store_error + unit) \<times> store" where
  "UpdateObject kc db key obj uc =
     (case missing_contract obj uc of
        Some host \<Rightarrow> (Inl (ErrMissingContract host), db)
      | None \<Rightarrow> Transaction (update_object_tx kc key obj uc) db)"

subsection \<open>Object\<close>

definition zero_dbSector :: dbSector where
  "zero_dbSector = \<lparr>se_ID = 0, se_LatestHost = 0, se_Root = 0\<rparr>"

definition zero_dbSlab :: dbSlab where
  "zero_dbSlab = \<lparr>sb_ID = 0, sb_DBSliceID = 0, sb_Key = [], sb_MinShards = 0, sb_TotalShards = 0\<rparr>"

text \<open>
  \<open>Preload\<close>: the sector a shard points to (the zero sector if there is none), the shards
  of a slab with their sectors, the slab of a slice (the zero slab if there is none), the
  slices of an object.
\<close>

definition preload_DBSector :: "store \<Rightarrow> dbShard \<Rightarrow> dbSector" where
  "preload_DBSector db sh =
     (case find (\<lambda>s. se_ID s = sh_DBSectorID sh) (sectors db) of Some s \<Rightarrow> s | None \<Rightarrow> zero_dbSector)"

definition preload_Shards :: "store \<Rightarrow> dbSlab \<Rightarrow> dbSector list" where
  "preload_Shards db slab = map (preload_DBSector db) (filter (\<lambda>sh. sh_DBSlabID sh = sb_ID slab) (shards db))"

definition preload_Slab :: "store \<Rightarrow> dbSlice \<Rightarrow> dbSlab" where
  "preload_Slab db sl =
     (case filter (\<lambda>sb. sb_DBSliceID sb = sl_ID sl) (slabs db) of [] \<Rightarrow> zero_dbSlab | sbs \<Rightarrow> last sbs)"

definition preload_Slabs :: "store \<Rightarrow> dbObject \<Rightarrow> dbSlice list" where
  "preload_Slabs db ob = filter (\<lambda>sl. sl_DBObjectID sl = o_ID ob) (slices db)"

text \<open>
  \<open>dbSlab.convert\<close>, given the preloaded sectors of the slab's shards: a shard whose
  sector was not loaded stays the zero \<open>Sector\<close>.
\<close>

definition dbSlab_convert :: "key_codec \<Rightarrow> dbSlab \<Rightarrow> dbSector list \<Rightarrow> store_error + Slab" where
  "dbSlab_convert kc s secs =
     bind_err (unmarshal_key kc (sb_Key s)) (\<lambda>k.
       Inr \<lparr>Key = k, MinShards = sb_MinShards s,
            Shards = map (\<lambda>sec. if se_ID sec = 0 then \<lparr>Host = 0, Root = 0\<rparr>
                                 else \<lparr>Host = se_LatestHost sec, Root = se_Root sec\<rparr>) secs\<rparr>)"

definition dbSlice_convert :: "key_codec \<Rightarrow> store \<Rightarrow> dbSlice \<Rightarrow> store_error + SlabSlice" where
  "dbSlice_convert kc db sl =
     bind_err (dbSlab_convert kc (preload_Slab db sl) (preload_Shards db (preload_Slab db sl))) (\<lambda>slab.
       Inr \<lparr>Key = Key slab, MinShards = MinShards slab, Shards = Shards slab,
            Offset = sl_Offset sl, Length = sl_Length sl\<rparr>)"

definition dbObject_convert :: "key_codec \<Rightarrow> store \<Rightarrow> dbObject \<Rightarrow> store_error + Object" where
  "dbObject_convert kc db ob =
     bind_err (unmarshal_key kc (o_Key ob)) (\<lambda>objKey.
     bind_err (mapE (dbSlice_convert kc db) (preload_Slabs db ob)) (\<lambda>sls.
       Inr \<lparr>object_Key = objKey, Slabs = sls\<rparr>))"

text \<open>\<open>SQLStore.object\<close> and \<open>SQLStore.Object\<close>.\<close>

definition object :: "store \<Rightarrow> string \<Rightarrow> store_error + dbObject" where
  "object db key =
     (case Take (where_struct o_ObjectID [] key (objects db)) of
        Inl e \<Rightarrow> Inl ErrObjectNotFound
      | Inr ob \<Rightarrow> Inr ob)"

definition Object :: "key_codec \<Rightarrow> store \<Rightarrow> string \<Rightarrow> store_error + Object" where
  "Object kc db key = bind_err (object db key) (dbObject_convert kc db)"

text \<open>
  What the round trip compares: of every slice its offset, its length, the \<open>minShards\<close>
  and the encryption key of its slab.
\<close>

definition slice_layout :: "SlabSlice \<Rightarrow> 32 word \<times> 32 word \<times> 8 word \<times> EncryptionKey" where
  "slice_layout ss = (Offset ss, Length ss, MinShards ss, Key ss)"

text \<open>
  A database in which every reference points to a key that has been handed out, and no
  key that has been handed out is handed out again.
\<close>

definition fresh_ids :: "store \<Rightarrow> bool" where
  "fresh_ids db \<longleftrightarrow>
     (\<forall>ob \<in> set (objects db). o_ID ob < next_object_id db)
     \<and> (\<forall>sl \<in> set (slices db). sl_ID sl < next_slice_id db \<and> sl_DBObjectID sl < next_object_id db)
     \<and> (\<forall>sb \<in> set (slabs db). sb_ID sb < next_slab_id db \<and> sb_DBSliceID sb < next_slice_id db)"

subsection \<open>UpdateSlab\<close>

text \<open>
  The contract identifiers that are values of the host-to-contract map.
\<close>

definition used_fcids :: "usedContracts \<Rightarrow> fileContractID list" where
  "used_fcids uc = map snd (filter (\<lambda>(h, f). map_of uc h = Some f) uc)"

text \<open>
  The body of the loop over the updated shards. \<open>dbHosts\<close> and \<open>dbContracts\<close> are the
  rows found before the transaction for the keys and the values of the map; the Go maps
  built from them hold, for a key, the last row with that key. \<open>existing\<close> are the
  sectors the slab was linked to when it was loaded.
\<close>

definition update_slab_shard :: "usedContracts \<Rightarrow> dbHost list \<Rightarrow> dbContract list \<Rightarrow> nat \<Rightarrow> nat set \<Rightarrow> store \<Rightarrow> Sector \<Rightarrow> store" where
  "update_slab_shard uc dbHosts dbContracts slabID existing tx shard =
     (case FirstOrCreate_sector tx (Root shard) (Host shard) of
        (sector, tx1) \<Rightarrow>
          (let tx2 = (if se_ID sector \<in> existing then tx1 else Create_shard tx1 slabID (se_ID sector));
               tx3 = (case find (\<lambda>c. c_FCID c = used_contract uc (Host shard)) (rev dbContracts) of
                        Some con \<Rightarrow> Append_contract tx2 (se_ID sector) (c_ID con)
                      | None \<Rightarrow> tx2) in
           case find (\<lambda>h. h_PublicKey h = Host shard) (rev dbHosts) of
             Some host \<Rightarrow> Append_host tx3 (se_ID sector) (h_ID host)
           | None \<Rightarrow> tx3))"

text \<open>
  \<open>UpdateSlab\<close>. The slab is looked up by its key, a non-nil byte slice and so always a
  condition. The \<open>Assign\<close> on that lookup has no effect on a \<open>Take\<close>.
\<close>

definition UpdateSlab :: "key_codec \<Rightarrow> store \<Rightarrow> Slab \<Rightarrow> usedContracts \<Rightarrow> (store_error + unit) \<times> store" where
  "UpdateSlab kc db s uc =
     (case marshal_key kc (Key s) of
        Inl e \<Rightarrow> (Inl e, db)
      | Inr key \<Rightarrow>
          (let dbHosts = filter (\<lambda>h. h_PublicKey h \<in> fst ` set uc) (hosts db);
               dbContracts = filter (\<lambda>c. c_FCID c \<in> set (used_fcids uc)) (contracts db) in
           case Take (filter (\<lambda>sb. sb_Key sb = key) (slabs db)) of
             Inl e \<Rightarrow> (Inl (ErrSlabNotFound key), db)
           | Inr slab \<Rightarrow>
               (let existing = sh_DBSectorID ` set (filter (\<lambda>sh. sh_DBSlabID sh = sb_ID slab) (shards db)) in
                Transaction
                  (\<lambda>tx. Inr ((), foldl (update_slab_shard uc dbHosts dbContracts (sb_ID slab) existing) tx (Shards s)))
                  db)))"

subsection \<open>UnhealthySlabs\<close>

text \<open>
  The query joins, for a slab, its shards, their sectors, the contracts linked to those
  sectors, the contract sets those contracts are in, and keeps the rows of the set with the
  given name. \<open>good_contract_hosts\<close> is the column \<open>c.host_id\<close> of the rows of one
  slab. The two left joins keep a shard without a contract as a row of nulls; the inner
  join on \<open>contract_set_contracts\<close> that follows them drops such a row again.
\<close>

definition good_contract_hosts :: "store \<Rightarrow> string \<Rightarrow> dbSlab \<Rightarrow> nat list" where
  "good_contract_hosts db set_name slab =
     concat (map (\<lambda>sh. concat (map (\<lambda>s. concat (map (\<lambda>se. concat (map (\<lambda>c. concat (map (\<lambda>csc. concat (map (\<lambda>cs.
         if sh_DBSlabID sh = sb_ID slab \<and> se_ID s = sh_DBSectorID sh \<and> snd se = sh_DBSectorID sh
            \<and> c_ID c = fst se \<and> snd csc = c_ID c \<and> cs_ID cs = fst csc \<and> cs_Name cs = set_name
         then [c_HostID c] else [])
       (contract_sets db))) (contract_set_contracts db))) (contracts db))) (contract_sectors db)))
       (sectors db))) (shards db))"

definition num_good_sectors :: "store \<Rightarrow> string \<Rightarrow> dbSlab \<Rightarrow> int" where
  "num_good_sectors db set_name slab = int (length (remdups (good_contract_hosts db set_name slab)))"

definition num_required_sectors :: "dbSlab \<Rightarrow> int" where
  "num_required_sectors slab = uint (sb_TotalShards slab)"

definition num_bad_sectors :: "store \<Rightarrow> string \<Rightarrow> dbSlab \<Rightarrow> int" where
  "num_bad_sectors db set_name slab = num_required_sectors slab - num_good_sectors db set_name slab"

text \<open>
  \<open>GROUP BY slabs.id HAVING num_good_sectors < num_required_sectors\<close>: a slab has a group
  only if the join has a row for it.
\<close>

definition unhealthy_group :: "store \<Rightarrow> string \<Rightarrow> dbSlab \<Rightarrow> bool" where
  "unhealthy_group db set_name slab \<longleftrightarrow>
     good_contract_hosts db set_name slab \<noteq> []
     \<and> num_good_sectors db set_name slab < num_required_sectors slab"

text \<open>A \<open>LIMIT\<close> clause is written only for a positive limit.\<close>

definition gorm_Limit :: "int \<Rightarrow> 'a list \<Rightarrow> 'a list" where
  "gorm_Limit n rows = (if 0 < n then take (nat n) rows else rows)"

text \<open>
  One query of \<open>FindInBatches\<close>: the groups behind the cursor (the primary key of the last
  row of the batch before), ordered by \<open>num_bad_sectors DESC\<close> and then by the primary
  key, which \<open>FindInBatches\<close> adds to the order, cut at the batch size.
\<close>

definition behind_cursor :: "nat option \<Rightarrow> dbSlab \<Rightarrow> bool" where
  "behind_cursor cursor slab = (case cursor of None \<Rightarrow> True | Some i \<Rightarrow> i < sb_ID slab)"

definition unhealthy_ordered :: "store \<Rightarrow> string \<Rightarrow> nat option \<Rightarrow> dbSlab list" where
  "unhealthy_ordered db set_name cursor =
     sort_key (\<lambda>sb. - num_bad_sectors db set_name sb)
       (sort_key sb_ID
          (filter (\<lambda>sb. unhealthy_group db set_name sb \<and> behind_cursor cursor sb) (slabs db)))"

definition unhealthy_query :: "store \<Rightarrow> string \<Rightarrow> nat option \<Rightarrow> int \<Rightarrow> dbSlab list" where
  "unhealthy_query db set_name cursor batchSize = gorm_Limit batchSize (unhealthy_ordered db set_name cursor)"

text \<open>
  The loop of \<open>FindInBatches\<close>, returning the rows of all batches in the order in which
  the callback receives them. \<open>totalSize\<close> is the limit of the statement. The loop ends
  after a batch shorter than the batch size, and, for a positive limit, once the limit is
  reached; the last batch before the limit is cut to what is left of it. The next query
  starts behind the primary key of the last row; taking that row from an empty batch stops
  the program.
\<close>

function FindInBatches_loop :: "store \<Rightarrow> string \<Rightarrow> int \<Rightarrow> int \<Rightarrow> int \<Rightarrow> int \<Rightarrow> nat option \<Rightarrow> store_error + dbSlab list" where
  "FindInBatches_loop db set_name totalSize batchSize batch rowsAffected cursor =
     (let result = unhealthy_query db set_name cursor batchSize;
          rowsAffected' = rowsAffected + int (length result);
          batch' = batch + 1 in
      if int (length result) < batchSize then Inr result
      else if 0 < totalSize \<and> totalSize \<le> rowsAffected' then Inr result
      else if result = [] then Inl ErrPanic
      else
        (let batchSize' = (if 0 < totalSize \<and> totalSize div batchSize = batch' then totalSize mod batchSize else batchSize) in
         case FindInBatches_loop db set_name totalSize batchSize' batch' rowsAffected' (Some (sb_ID (last result))) of
           Inl e \<Rightarrow> Inl e
         | Inr rest \<Rightarrow> Inr (result @ rest)))"
  by pat_completeness auto
termination
proof (relation "measure (\<lambda>(db, set_name, totalSize, batchSize, batch, rowsAffected, cursor).
          length (filter (behind_cursor cursor) (slabs db)))", goal_cases)
  case 1
  show ?case by simp
next
  case (2 db set_name totalSize batchSize batch rowsAffected cursor result rowsAffected' batch' batchSize')
  let ?l = "last result"
  have r: "result = gorm_Limit batchSize (unhealthy_ordered db set_name cursor)"
    using 2 by (simp add: unhealthy_query_def)
  have ne: "result \<noteq> []" using 2 by simp
  have "set (gorm_Limit batchSize xs) \<subseteq> set xs" for xs :: "dbSlab list"
    by (auto simp: gorm_Limit_def dest: in_set_takeD)
  then have "set result \<subseteq> set (unhealthy_ordered db set_name cursor)"
    unfolding r .
  moreover have "?l \<in> set result" using ne by simp
  ultimately have "?l \<in> set (unhealthy_ordered db set_name cursor)" by blast
  then have mem: "?l \<in> set (slabs db)" and bc: "behind_cursor cursor ?l"
    by (simp_all add: unhealthy_ordered_def)
  have sub: "filter (behind_cursor (Some (sb_ID ?l))) (slabs db)
      = filter (behind_cursor (Some (sb_ID ?l))) (filter (behind_cursor cursor) (slabs db))"
  proof -
    have "\<And>x. behind_cursor (Some (sb_ID ?l)) x \<Longrightarrow> behind_cursor cursor x"
      using bc by (auto simp: behind_cursor_def split: option.splits)
    then show ?thesis by (auto simp: filter_filter intro: filter_cong)
  qed
  have "?l \<in> set (filter (behind_cursor cursor) (slabs db))" using mem bc by simp
  moreover have "\<not> behind_cursor (Some (sb_ID ?l)) ?l" by (simp add: behind_cursor_def)
  ultimately have "length (filter (behind_cursor (Some (sb_ID ?l))) (filter (behind_cursor cursor) (slabs db)))
      < length (filter (behind_cursor cursor) (slabs db))"
    by (rule length_filter_less)
  then show ?case using sub by simp
qed

declare FindInBatches_loop.simps [simp del]

text \<open>
  \<open>UnhealthySlabs\<close>: the rows of the batches, and each of them converted with its
  preloaded shards; a row that does not convert stops the program.
\<close>

definition unhealthy_rows :: "store \<Rightarrow> string \<Rightarrow> int \<Rightarrow> store_error + dbSlab list" where
  "unhealthy_rows db set_name limit =
     (let totalSize = limit;
          batchSize = (if 0 < totalSize \<and> totalSize < slabRetrievalBatchSize then totalSize
                       else slabRetrievalBatchSize) in
      FindInBatches_loop db set_name totalSize batchSize 0 0 None)"

definition UnhealthySlabs :: "key_codec \<Rightarrow> store \<Rightarrow> string \<Rightarrow> int \<Rightarrow> store_error + Slab list" where
  "UnhealthySlabs kc db set_name limit =
     bind_err (unhealthy_rows db set_name limit) (\<lambda>rows.
       case mapE (\<lambda>sb. dbSlab_convert kc sb (preload_Shards db sb)) rows of
         Inl e \<Rightarrow> Inl ErrPanic
       | Inr converted \<Rightarrow> Inr converted)"

text \<open>
  The specification's measure of a slab's health in a contract set, in its words: the
  number of distinct hosts that hold one of the slab's shards under a contract that is
  currently in the set.
\<close>

definition spec_goodSectors :: "store \<Rightarrow> string \<Rightarrow> dbSlab \<Rightarrow> nat" where
  "spec_goodSectors db set_name slab =
     card {hostID. \<exists>c \<in> set (contracts db). \<exists>sh \<in> set (shards db). \<exists>cs \<in> set (contract_sets db).
             hostID = c_HostID c
             \<and> sh_DBSlabID sh = sb_ID slab
             \<and> sh_DBSectorID sh \<in> se_ID ` set (sectors db)
             \<and> (c_ID c, sh_DBSectorID sh) \<in> set (contract_sectors db)
             \<and> cs_Name cs = set_name
             \<and> (cs_ID cs, c_ID c) \<in> set (contract_set_contracts db)}"

definition spec_deficit :: "store \<Rightarrow> string \<Rightarrow> dbSlab \<Rightarrow> int" where
  "spec_deficit db set_name slab = uint (sb_TotalShards slab) - int (spec_goodSectors db set_name slab)"

subsection \<open>An example database\<close>

text \<open>
  Four hosts A, B, C and D (public keys 10 to 13) with one contract each (identifiers 101
  to 104); the contract set \<open>default\<close> holds the contracts of A and B. The text form of a
  key is its 32 bytes. The example object has one slab with \<open>minShards = 2\<close> and four
  shards, one on each host; a second object has a slab whose two shards are on C and D.
\<close>

definition example_key_codec :: key_codec where
  "example_key_codec =
     \<lparr>MarshalText = (\<lambda>k. Inr (le_bytes 32 (unat k))),
      UnmarshalText = (\<lambda>b. if length b = 32 then Inr (of_nat (le_nat b)) else Inl ''wrong key length'')\<rparr>"

definition example_store :: store where
  "example_store =
     \<lparr>hosts = [\<lparr>h_ID = 1, h_PublicKey = 10, h_NetAddress = ''a.example:9982''\<rparr>,
               \<lparr>h_ID = 2, h_PublicKey = 11, h_NetAddress = ''b.example:9982''\<rparr>,
               \<lparr>h_ID = 3, h_PublicKey = 12, h_NetAddress = ''c.example:9982''\<rparr>,
               \<lparr>h_ID = 4, h_PublicKey = 13, h_NetAddress = ''d.example:9982''\<rparr>],
      contracts = [\<lparr>c_ID = 1, c_FCID = 101, c_HostID = 1, c_RenewedFrom = 0, c_StartHeight = 50,
                     c_TotalCost = 1000, c_UploadSpending = 10, c_DownloadSpending = 20,
                     c_FundAccountSpending = 30\<rparr>,
                   \<lparr>c_ID = 2, c_FCID = 102, c_HostID = 2, c_RenewedFrom = 0, c_StartHeight = 50,
                     c_TotalCost = 1000, c_UploadSpending = 0, c_DownloadSpending = 0,
                     c_FundAccountSpending = 0\<rparr>,
                   \<lparr>c_ID = 3, c_FCID = 103, c_HostID = 3, c_RenewedFrom = 0, c_StartHeight = 50,
                     c_TotalCost = 1000, c_UploadSpending = 0, c_DownloadSpending = 0,
                     c_FundAccountSpending = 0\<rparr>,
                   \<lparr>c_ID = 4, c_FCID = 104, c_HostID = 4, c_RenewedFrom = 0, c_StartHeight = 50,
                     c_TotalCost = 1000, c_UploadSpending = 0, c_DownloadSpending = 0,
                     c_FundAccountSpending = 0\<rparr>],
      archived_contracts = [],
      contract_sets = [\<lparr>cs_ID = 1, cs_Name = ''default''\<rparr>],
      contract_set_contracts = [(1, 1), (1, 2)],
      objects = [], slices = [], slabs = [], sectors = [], shards = [],
      contract_sectors = [], host_sectors = [],
      next_contract_id = 5, next_archived_contract_id = 1, next_object_id = 1,
      next_slice_id = 1, next_slab_id = 1, next_sector_id = 1, next_shard_id = 1\<rparr>"

definition example_used :: usedContracts where
  "example_used = [(10, 101), (11, 102), (12, 103), (13, 104)]"

definition example_object :: Object where
  "example_object =
     \<lparr>object_Key = 77,
      Slabs = [\<lparr>Key = 500, MinShards = 2,
                Shards = [\<lparr>Host = 10, Root = 1001\<rparr>, \<lparr>Host = 11, Root = 1002\<rparr>,
                          \<lparr>Host = 12, Root = 1003\<rparr>, \<lparr>Host = 13, Root = 1004\<rparr>],
                Offset = 0, Length = 4096\<rparr>]\<rparr>"

definition example_object_cd :: Object where
  "example_object_cd =
     \<lparr>object_Key = 78,
      Slabs = [\<lparr>Key = 501, MinShards = 1,
                Shards = [\<lparr>Host = 12, Root = 2001\<rparr>, \<lparr>Host = 13, Root = 2002\<rparr>],
                Offset = 0, Length = 1024\<rparr>]\<rparr>"

definition store_with_object :: store where
  "store_with_object = snd (UpdateObject example_key_codec example_store ''object1'' example_object example_used)"

definition store_with_object_cd :: store where
  "store_with_object_cd = snd (UpdateObject example_key_codec example_store ''object2'' example_object_cd example_used)"



section \<open>Properties of the transport\<close>

lemma length_le_bytes [simp]: "length (le_bytes k v) = k"
  by (induction k arbitrary: v) auto

lemma le_nat_le_bytes: "le_nat (le_bytes k v) = v mod 256 ^ k"
proof (induction k arbitrary: v)
  case 0
  then show ?case by simp
next
  case (Suc k)
  have "unat (of_nat (v mod 256) :: byte) = v mod 256"
    by (simp add: unat_of_nat)
  then show ?case using Suc
    by (simp add: mod_mult2_eq)
qed

lemma LittleEndian_roundtrip: "LittleEndian_Uint64 (LittleEndian_PutUint64 v @ rest) = v"
proof -
  have "unat v < 2 ^ LENGTH(64)" by (rule unsigned_less)
  then show ?thesis
    by (simp add: LittleEndian_Uint64_def LittleEndian_PutUint64_def le_nat_le_bytes)
qed

lemma BigEndian_roundtrip: "BigEndian_Uint64 (BigEndian_PutUint64 v @ rest) = v"
proof -
  have "unat v < 2 ^ LENGTH(64)" by (rule unsigned_less)
  then show ?thesis
    by (simp add: BigEndian_Uint64_def BigEndian_PutUint64_def le_nat_le_bytes)
qed

lemma length_PutUint64 [simp]:
  "length (LittleEndian_PutUint64 v) = 8" "length (BigEndian_PutUint64 v) = 8"
  by (simp_all add: LittleEndian_PutUint64_def BigEndian_PutUint64_def)

lemma mux_Read_concat:
  assumes "mux_Read n m = ((bs, e), m')"
  shows "concat (incoming m) = bs @ concat (incoming m')"
    and "length bs \<le> n" and "outgoing m' = outgoing m" and "write_error m' = write_error m"
    and "e = None \<or> e = Some EOF"
  using assms by (auto simp: mux_Read_def split: list.splits if_splits)

lemma readFull_loop_enough:
  "mn \<le> length buf + length (concat (incoming m)) \<Longrightarrow>
   \<exists>m'. readFull_loop mn buf m = ((buf @ take (mn - length buf) (concat (incoming m)), None), m')
       \<and> concat (incoming m') = drop (mn - length buf) (concat (incoming m))
       \<and> outgoing m' = outgoing m \<and> write_error m' = write_error m"
proof (induction mn buf m rule: readFull_loop.induct)
  case (1 mn buf m)
  show ?case
  proof (cases "length buf < mn")
    case False
    then show ?thesis by (simp add: readFull_loop.simps[of mn buf m])
  next
    case True
    with "1.prems" obtain c cs where inc: "incoming m = c # cs"
      by (cases "incoming m") auto
    show ?thesis
    proof (cases "length c \<le> mn - length buf")
      case le: True
      let ?m' = "m\<lparr>incoming := cs\<rparr>"
      have rd: "mux_Read (mn - length buf) m = ((c, None), ?m')"
        using inc le by (simp add: mux_Read_def)
      have "mn \<le> length (buf @ c) + length (concat (incoming ?m'))"
        using "1.prems" inc by simp
      from "1.IH"[OF True rd[symmetric] refl refl this]
      show ?thesis using True rd inc le
        by (auto simp: readFull_loop.simps[of mn buf m])
    next
      case gt: False
      let ?k = "mn - length buf"
      let ?m' = "m\<lparr>incoming := drop ?k c # cs\<rparr>"
      have rd: "mux_Read ?k m = ((take ?k c, None), ?m')"
        using inc gt by (simp add: mux_Read_def)
      have "readFull_loop mn (buf @ take ?k c) ?m' = ((buf @ take ?k c, None), ?m')"
        using gt True by (simp add: readFull_loop.simps[of mn "buf @ take ?k c" ?m'])
      then show ?thesis using True rd inc gt
        by (auto simp: readFull_loop.simps[of mn buf m])
    qed
  qed
qed

lemma io_ReadFull_enough:
  assumes "n \<le> length (concat (incoming m))"
  obtains m' where "io_ReadFull n m = ((take n (concat (incoming m)), None), m')"
    and "concat (incoming m') = drop n (concat (incoming m))"
    and "outgoing m' = outgoing m" and "write_error m' = write_error m"
  using readFull_loop_enough[of n "[]" m] assms by (auto simp: io_ReadFull_def)

lemma readSubscriberResponse_frame:
  assumes fr: "concat (incoming (Stream s)) = ack_frame reserved e @ payload"
    and res: "length reserved = 8" and len: "length e < 2 ^ 64"
  shows "readSubscriberResponseErr (readSubscriberResponse s) = (if e = [] then None else Some (SubscriberError e))"
    and "concat (incoming (Stream (readSubscriberResponse s))) = payload"
    and "once_done (readSubscriberResponse s) = once_done s"
proof -
  let ?m = "Stream s"
  have n16: "16 \<le> length (concat (incoming ?m))"
    using fr res by (simp add: ack_frame_def)
  obtain m1 where r1: "io_ReadFull 16 ?m = ((take 16 (concat (incoming ?m)), None), m1)"
    and c1: "concat (incoming m1) = drop 16 (concat (incoming ?m))"
    using io_ReadFull_enough[OF n16] by blast
  have t16: "take 16 (concat (incoming ?m)) = reserved @ LittleEndian_PutUint64 (of_nat (length e))"
    using fr res by (simp add: ack_frame_def)
  have d16: "concat (incoming m1) = e @ payload"
    using c1 fr res by (simp add: ack_frame_def)
  have el: "LittleEndian_Uint64 (drop 8 (take 16 (concat (incoming ?m)))) = of_nat (length e)"
    using LittleEndian_roundtrip[of "of_nat (length e)" "[]"] res by (simp add: t16)
  have un: "unat (of_nat (length e) :: uint64) = length e"
    using len by (simp add: unat_of_nat)
  have z: "(of_nat (length e) :: uint64) = 0 \<longleftrightarrow> e = []"
  proof
    assume "(of_nat (length e) :: uint64) = 0"
    then have "unat (of_nat (length e) :: uint64) = 0" by simp
    with un show "e = []" by simp
  next
    assume "e = []"
    then show "(of_nat (length e) :: uint64) = 0" by simp
  qed
  have r1': "io_ReadFull 16 (Stream s) = ((reserved @ LittleEndian_PutUint64 (of_nat (length e)), None), m1)"
    using r1 t16 by simp
  have el': "LittleEndian_Uint64 (drop 8 (reserved @ LittleEndian_PutUint64 (of_nat (length e)))) = of_nat (length e)"
    using el t16 by simp
  have main: "readSubscriberResponseErr (readSubscriberResponse s) = (if e = [] then None else Some (SubscriberError e))
    \<and> concat (incoming (Stream (readSubscriberResponse s))) = payload
    \<and> once_done (readSubscriberResponse s) = once_done s"
  proof (cases "e = []")
    case True
    have "readSubscriberResponse s = s\<lparr>Stream := m1, readSubscriberResponseErr := None\<rparr>"
      unfolding readSubscriberResponse_def r1' using el' True by (simp add: Let_def)
    then show ?thesis using True d16 by simp
  next
    case False
    have "length e \<le> length (concat (incoming m1))" using d16 by simp
    from io_ReadFull_enough[OF this] obtain m2 where
      r2: "io_ReadFull (length e) m1 = ((take (length e) (concat (incoming m1)), None), m2)"
      and c2: "concat (incoming m2) = drop (length e) (concat (incoming m1))"
      by blast
    have r2': "io_ReadFull (length e) m1 = ((e, None), m2)" using r2 d16 by simp
    have c2': "concat (incoming m2) = payload" using c2 d16 by simp
    have nz: "(of_nat (length e) :: uint64) \<noteq> 0" using z False by simp
    have "readSubscriberResponse s = s\<lparr>Stream := m2, readSubscriberResponseErr := Some (SubscriberError e)\<rparr>"
      unfolding readSubscriberResponse_def r1' using el' nz un r2' by (simp add: Let_def)
    then show ?thesis using False c2' by simp
  qed
  from main show "readSubscriberResponseErr (readSubscriberResponse s) = (if e = [] then None else Some (SubscriberError e))"
    and "concat (incoming (Stream (readSubscriberResponse s))) = payload"
    and "once_done (readSubscriberResponse s) = once_done s"
    by simp_all
qed

lemma stream_Read_done_ok:
  assumes "once_done s" "readSubscriberResponseErr s = None" "stream_Read n s = ((bs, err), s')"
  shows "concat (incoming (Stream s)) = bs @ concat (incoming (Stream s'))"
    and "once_done s'" and "readSubscriberResponseErr s' = None"
    and "err = None \<or> err = Some EOF"
  using assms mux_Read_concat[of n "Stream s" bs err]
  by (auto simp: stream_Read_def once_Do_def split: prod.splits)

lemma stream_Read_done_err:
  assumes "once_done s" "readSubscriberResponseErr s = Some x"
  shows "stream_Read n s = (([], Some x), s)"
  using assms by (simp add: stream_Read_def once_Do_def)

lemma stream_Reads_done_ok:
  "once_done s \<Longrightarrow> readSubscriberResponseErr s = None \<Longrightarrow> stream_Reads ns s = (rs, s') \<Longrightarrow>
   concat (map fst rs) @ concat (incoming (Stream s')) = concat (incoming (Stream s))
   \<and> once_done s' \<and> (\<forall>r\<in>set rs. snd r = None \<or> snd r = Some EOF)"
proof (induction ns arbitrary: s rs s')
  case Nil
  then show ?case by simp
next
  case (Cons n ns)
  obtain bs err s1 where r: "stream_Read n s = ((bs, err), s1)"
    by (metis surj_pair)
  obtain rs1 s2 where rr: "stream_Reads ns s1 = (rs1, s2)"
    by (metis surj_pair)
  note h = stream_Read_done_ok[OF Cons.prems(1,2) r]
  from Cons.IH[OF h(2,3) rr] h(1,4) Cons.prems(3) r rr
  show ?case by auto
qed

lemma stream_Reads_done_err:
  "once_done s \<Longrightarrow> readSubscriberResponseErr s = Some x \<Longrightarrow>
   stream_Reads ns s = (replicate (length ns) ([], Some x), s)"
  by (induction ns) (simp_all add: stream_Read_done_err)

text \<open>
  Claim C10. On a stream opened by \<open>DialStream\<close> whose host sends the subscriber-ack
  frame (eight reserved bytes, the error length as a \<open>u64\<close>, the error bytes) followed
  by the RPC payload, nothing is consumed before the first \<open>Read\<close>; after any non-empty
  sequence of \<open>Read\<close> calls the frame has been consumed exactly once: with an empty error,
  the bytes returned by the calls followed by the bytes still in the stream are exactly the
  payload; with a non-empty error every call returns that error and no bytes, and the
  payload is still in the stream.
\<close>

theorem subscriber_ack_consumed_once:
  assumes fr: "concat (incoming (mux t)) = ack_frame reserved e @ payload"
    and res: "length reserved = 8" and len: "length e < 2 ^ 64"
    and rd: "stream_Reads (n # ns) (DialStream t) = (rs, s')"
  shows "\<not> once_done (DialStream t) \<and> incoming (Stream (DialStream t)) = incoming (mux t)
    \<and> once_done s'
    \<and> (e = [] \<longrightarrow> concat (map fst rs) @ concat (incoming (Stream s')) = payload
           \<and> (\<forall>r\<in>set rs. snd r = None \<or> snd r = Some EOF))
    \<and> (e \<noteq> [] \<longrightarrow> rs = replicate (Suc (length ns)) ([], Some (SubscriberError e))
           \<and> concat (incoming (Stream s')) = payload)"
proof -
  let ?s0 = "DialStream t"
  have d: "\<not> once_done ?s0 \<and> incoming (Stream ?s0) = incoming (mux t)"
    by (simp add: DialStream_def mux_Write_def split: option.splits)
  let ?s1 = "once_Do ?s0"
  have s1: "?s1 = (readSubscriberResponse ?s0)\<lparr>once_done := True\<rparr>"
    using d by (simp add: once_Do_def)
  have fr0: "concat (incoming (Stream ?s0)) = ack_frame reserved e @ payload"
    using d fr by simp
  note f = readSubscriberResponse_frame[OF fr0 res len]
  have od: "once_done ?s1" and er: "readSubscriberResponseErr ?s1 = (if e = [] then None else Some (SubscriberError e))"
    and pl: "concat (incoming (Stream ?s1)) = payload"
    using f by (simp_all add: s1)
  have idem: "once_Do ?s1 = ?s1" using od by (simp add: once_Do_def)
  have eq: "stream_Read n ?s0 = stream_Read n ?s1"
    by (simp add: stream_Read_def idem)
  have rd1: "stream_Reads (n # ns) ?s1 = (rs, s')"
    using rd eq by simp
  have a: "once_done s'"
  proof (cases "e = []")
    case True
    then show ?thesis using stream_Reads_done_ok[OF od _ rd1] er by simp
  next
    case False
    then show ?thesis using stream_Reads_done_err[OF od, of "SubscriberError e" "n # ns"] er rd1 od by simp
  qed
  have b: "e = [] \<longrightarrow> concat (map fst rs) @ concat (incoming (Stream s')) = payload
           \<and> (\<forall>r\<in>set rs. snd r = None \<or> snd r = Some EOF)"
    using stream_Reads_done_ok[OF od _ rd1] er pl by simp
  have c: "e \<noteq> [] \<longrightarrow> rs = replicate (Suc (length ns)) ([], Some (SubscriberError e))
           \<and> concat (incoming (Stream s')) = payload"
    using stream_Reads_done_err[OF od, of "SubscriberError e" "n # ns"] er rd1 pl by auto
  from d a b c show ?thesis by blast
qed

theorem subscriber_ack_consumed_once_witness:
  "concat (incoming (mux host_ack_ok)) = ack_frame [1,2,3,4,5,6,7,8] [] @ [9,9]
   \<and> fst (stream_Reads [1, 4] (DialStream host_ack_ok)) = [([9], None), ([9], None)]
   \<and> once_done (snd (stream_Reads [1, 4] (DialStream host_ack_ok)))
   \<and> concat (incoming (Stream (snd (stream_Reads [1, 4] (DialStream host_ack_ok))))) = []
   \<and> concat (incoming (mux host_ack_err)) = ack_frame [1,2,3,4,5,6,7,8] [110,111] @ [9,9]
   \<and> fst (stream_Reads [1, 4] (DialStream host_ack_err))
        = [([], Some (SubscriberError [110,111])), ([], Some (SubscriberError [110,111]))]
   \<and> concat (incoming (Stream (snd (stream_Reads [1, 4] (DialStream host_ack_err))))) = [9,9]"
proof -
  let ?r = "stream_Reads [1, 4] (DialStream host_ack_ok)"
  have h1: "concat (incoming (mux host_ack_ok)) = ack_frame [1,2,3,4,5,6,7,8] [] @ [9,9]"
    by code_simp
  have h2: "length [1,2,3,4,5,6,7,8::byte] = 8" by simp
  have h3: "length ([]::byte list) < 2 ^ 64" by simp
  have h4: "?r = ([([9], None), ([9], None)], snd ?r)"
    by (rule prod_eqI) (code_simp, simp)
  note T = subscriber_ack_consumed_once[OF h1 h2 h3 h4]
  let ?q = "stream_Reads [1, 4] (DialStream host_ack_err)"
  have g1: "concat (incoming (mux host_ack_err)) = ack_frame [1,2,3,4,5,6,7,8] [110,111] @ [9,9]"
    by code_simp
  have g3: "length ([110,111]::byte list) < 2 ^ 64" by simp
  have g4: "?q = (fst ?q, snd ?q)" by simp
  note U = subscriber_ack_consumed_once[OF g1 h2 g3 g4]
  have h4': "fst ?r = [([9], None), ([9], None)]" using h4 by (metis fst_conv)
  from T U h1 g1 h4' show ?thesis by (simp del: stream_Reads.simps)
qed

lemma readFull_loop_error:
  "readFull_loop mn buf m = ((bs, Some e), m') \<Longrightarrow> e = EOF \<or> e = ErrUnexpectedEOF"
proof (induction mn buf m rule: readFull_loop.induct)
  case (1 mn buf m)
  show ?case
  proof (cases "length buf < mn")
    case False
    with "1.prems" show ?thesis by (simp add: readFull_loop.simps[of mn buf m])
  next
    case True
    obtain cs er m1 where rd: "mux_Read (mn - length buf) m = ((cs, er), m1)"
      by (metis surj_pair)
    have er: "er = None \<or> er = Some EOF"
      using rd by (auto simp: mux_Read_def split: list.splits if_splits)
    show ?thesis
    proof (cases er)
      case None
      with "1.IH"[OF True rd[symmetric] refl] "1.prems" True rd show ?thesis
        by (simp add: readFull_loop.simps[of mn buf m])
    next
      case (Some x)
      with er "1.prems" True rd show ?thesis
        by (auto simp: readFull_loop.simps[of mn buf m] readFull_result_def split: if_splits)
    qed
  qed
qed

lemma readSubscriberResponse_no_iol: "no_iol (readSubscriberResponse s)"
  using readFull_loop_error
  by (fastforce simp: no_iol_def readSubscriberResponse_def io_ReadFull_def Let_def
      split: prod.splits option.splits)

lemma once_Do_no_iol: "no_iol s \<Longrightarrow> no_iol (once_Do s)"
  using readSubscriberResponse_no_iol[of s] by (simp add: once_Do_def no_iol_def)

lemma stream_Read_no_iol:
  assumes "no_iol s" "stream_Read n s = ((bs, e), s')"
  shows "no_iol s'" and "e \<noteq> Some ErrInvalidOutputLength"
  using assms once_Do_no_iol[OF assms(1)]
  by (auto simp: stream_Read_def no_iol_def Let_def mux_Read_def split: option.splits prod.splits list.splits if_splits)

lemma stream_Write_no_iol:
  "no_iol s \<Longrightarrow> stream_Write b s = (e, s') \<Longrightarrow> no_iol s' \<and> e \<noteq> Some ErrInvalidOutputLength"
  by (auto simp: stream_Write_def mux_Write_def no_iol_def split: option.splits prod.splits)

lemma run_reader_no_iol:
  "no_iol s \<Longrightarrow> run_reader p s = (x, s') \<Longrightarrow> no_iol s'"
proof (induction p arbitrary: s)
  case (Return y)
  then show ?case by simp
next
  case (ReadThen n k)
  obtain r s1 where rd: "stream_Read n s = (r, s1)" by (metis surj_pair)
  have "no_iol s1" using stream_Read_no_iol(1)[OF ReadThen.prems(1), of n "fst r" "snd r" s1] rd by simp
  moreover have "run_reader (k r) s1 = (x, s')" using ReadThen.prems(2) rd by simp
  ultimately show ?case using ReadThen.IH[of "k r" s1] by (simp add: rangeI)
qed

lemma readResponse_no_iol:
  "no_iol s \<Longrightarrow> readResponse dec s = (r, s') \<Longrightarrow> no_iol s' \<and> r \<noteq> Inl ErrInvalidOutputLength"
  using run_reader_no_iol[of s dec]
  by (auto simp: readResponse_def split: prod.splits sum.splits rpcResponse.splits)

lemma writeResponse_no_iol:
  "no_iol s \<Longrightarrow> writeResponse b s = (e, s') \<Longrightarrow> no_iol s' \<and> e \<noteq> Some ErrInvalidOutputLength"
  unfolding writeResponse_def by (rule stream_Write_no_iol)

lemma processPayment_no_iol:
  assumes "no_iol s" "processPayment cd p s = ((e, p'), s')"
  shows "no_iol s' \<and> e \<noteq> Some ErrInvalidOutputLength"
proof -
  obtain e1 s1 where w1: "writeResponse (enc_paymentType cd p) s = (e1, s1)" by (metis surj_pair)
  note n1 = writeResponse_no_iol[OF assms(1) w1]
  obtain e2 s2 where w2: "writeResponse (enc_payment cd p) s1 = (e2, s2)" by (metis surj_pair)
  note n2 = writeResponse_no_iol[OF conjunct1[OF n1] w2]
  obtain r3 s3 where w3: "readResponse (dec_paymentResponse cd) s2 = (r3, s3)" by (metis surj_pair)
  note n3 = readResponse_no_iol[OF conjunct1[OF n2] w3]
  show ?thesis using assms(2) w1 w2 w3 n1 n2 n3
    by (auto simp: processPayment_def split: option.splits PaymentMethod.splits sum.splits)
qed

lemma executeProgram_no_iol:
  assumes "no_iol s" "executeProgram cd req p s = (r, s')"
  shows "no_iol s' \<and> r \<noteq> Inl ErrInvalidOutputLength"
proof -
  obtain e1 s1 where w1: "stream_Write (rpcExecuteProgramID cd) s = (e1, s1)" by (metis surj_pair)
  note n1 = stream_Write_no_iol[OF assms(1) w1]
  obtain e2 p2 s2 where w2: "processPayment cd p s1 = ((e2, p2), s2)" by (metis surj_pair)
  note n2 = processPayment_no_iol[OF conjunct1[OF n1] w2]
  obtain e3 s3 where w3: "writeResponse req s2 = (e3, s3)" by (metis surj_pair)
  note n3 = writeResponse_no_iol[OF conjunct1[OF n2] w3]
  obtain r4 s4 where w4: "readResponse (dec_specifier cd) s3 = (r4, s4)" by (metis surj_pair)
  note n4 = readResponse_no_iol[OF conjunct1[OF n3] w4]
  obtain r5 s5 where w5: "readResponse (dec_executeProgramResponse cd) s4 = (r5, s5)" by (metis surj_pair)
  note n5 = readResponse_no_iol[OF conjunct1[OF n4] w5]
  show ?thesis using assms(2) w1 w2 w3 w4 w5 n1 n2 n3 n4 n5
    by (auto simp: executeProgram_def split: option.splits)
qed

lemma DialStream_no_iol: "no_iol (DialStream t)"
  by (simp add: no_iol_def DialStream_def)

lemma parse_layout:
  assumes "buf = sg @ BigEndian_PutUint64 rv @ dat @ [ty]" "length sg = 64"
  shows "take 64 buf = sg" "BigEndian_Uint64 (take 8 (drop 64 buf)) = rv"
    "take (length buf - 1 - 72) (drop 72 buf) = dat" "buf ! (length buf - 1) = ty"
  using assms BigEndian_roundtrip[of rv "[]"]
  by (simp_all add: nth_append)

text \<open>
  The output-length checks of the registry RPCs. \<open>RPCReadRegistry\<close> returns the
  output-length error exactly when the exchange up to the response header succeeded and the
  reported output length is below \<open>64 + 8 + 1 = 73\<close>; otherwise the value it returns
  is read off the buffer as the single \<open>Read\<close> left it: when that buffer is a 64-byte
  signature, the big-endian revision number, the data and one final type byte, these four
  parts are returned. \<open>RPCUpdateRegistry\<close> returns the output-length error exactly
  when the exchange succeeded and the reported output length is not zero, and succeeds
  exactly when it is zero.
\<close>

theorem registry_output_length:
  "(fst (RPCReadRegistry cd t p k) = Inl (Wrapped ''ReadRegistry'' ErrInvalidOutputLength)
      \<longleftrightarrow> (\<exists>resp s. executeProgram cd (enc_readRegistryRequest cd k) p (DialStream t) = (Inr resp, s)
              \<and> OutputLength resp < 73))
   \<and> (\<forall>resp s bs s' sg rv dat ty.
         executeProgram cd (enc_readRegistryRequest cd k) p (DialStream t) = (Inr resp, s)
         \<and> \<not> OutputLength resp < 73
         \<and> stream_Read (unat (OutputLength resp)) s = ((bs, None), s')
         \<and> buffer_after_Read (unat (OutputLength resp)) bs = sg @ BigEndian_PutUint64 rv @ dat @ [ty]
         \<and> length sg = 64
         \<longrightarrow> RPCReadRegistry cd t p k
              = (Inr \<lparr>Data = dat, Revision = rv, Type = ty, Signature = sg\<rparr>, s'))
   \<and> (fst (RPCUpdateRegistry cd t p k v) = Inl (Wrapped ''UpdateRegistry'' ErrInvalidOutputLength)
      \<longleftrightarrow> (\<exists>resp s. executeProgram cd (enc_updateRegistryRequest cd k v) p (DialStream t) = (Inr resp, s)
              \<and> OutputLength resp \<noteq> 0))
   \<and> (fst (RPCUpdateRegistry cd t p k v) = Inr ()
      \<longleftrightarrow> (\<exists>resp s. executeProgram cd (enc_updateRegistryRequest cd k v) p (DialStream t) = (Inr resp, s)
              \<and> OutputLength resp = 0))"
proof (intro conjI)
  obtain r s1 where ex: "executeProgram cd (enc_readRegistryRequest cd k) p (DialStream t) = (r, s1)"
    by (metis surj_pair)
  note n = executeProgram_no_iol[OF DialStream_no_iol ex]
  show "fst (RPCReadRegistry cd t p k) = Inl (Wrapped ''ReadRegistry'' ErrInvalidOutputLength)
      \<longleftrightarrow> (\<exists>resp s. executeProgram cd (enc_readRegistryRequest cd k) p (DialStream t) = (Inr resp, s)
              \<and> OutputLength resp < 73)"
  proof (cases r)
    case (Inl e)
    then show ?thesis using ex n by (simp add: RPCReadRegistry_def wrapErr_def)
  next
    case (Inr resp)
    obtain bs e s2 where rd: "stream_Read (unat (OutputLength resp)) s1 = ((bs, e), s2)"
      by (metis surj_pair)
    have "e \<noteq> Some ErrInvalidOutputLength"
      using stream_Read_no_iol(2)[OF conjunct1[OF n] rd] .
    then show ?thesis using ex Inr rd
      by (auto simp: RPCReadRegistry_def wrapErr_def Let_def split: option.splits)
  qed
  show "\<forall>resp s bs s' sg rv dat ty.
         executeProgram cd (enc_readRegistryRequest cd k) p (DialStream t) = (Inr resp, s)
         \<and> \<not> OutputLength resp < 73
         \<and> stream_Read (unat (OutputLength resp)) s = ((bs, None), s')
         \<and> buffer_after_Read (unat (OutputLength resp)) bs = sg @ BigEndian_PutUint64 rv @ dat @ [ty]
         \<and> length sg = 64
         \<longrightarrow> RPCReadRegistry cd t p k
              = (Inr \<lparr>Data = dat, Revision = rv, Type = ty, Signature = sg\<rparr>, s')"
  proof (intro allI impI, elim conjE)
    fix resp s bs s' sg rv dat ty
    assume a: "executeProgram cd (enc_readRegistryRequest cd k) p (DialStream t) = (Inr resp, s)"
      "\<not> OutputLength resp < 73"
      "stream_Read (unat (OutputLength resp)) s = ((bs, None), s')"
      "buffer_after_Read (unat (OutputLength resp)) bs = sg @ BigEndian_PutUint64 rv @ dat @ [ty]"
      "length sg = 64"
    note pl = parse_layout[OF a(4,5)]
    show "RPCReadRegistry cd t p k = (Inr \<lparr>Data = dat, Revision = rv, Type = ty, Signature = sg\<rparr>, s')"
      using a(1,2,3) pl by (simp add: RPCReadRegistry_def wrapErr_def Let_def)
  qed
  obtain r' s1' where ex': "executeProgram cd (enc_updateRegistryRequest cd k v) p (DialStream t) = (r', s1')"
    by (metis surj_pair)
  note nu = executeProgram_no_iol[OF DialStream_no_iol ex']
  show "fst (RPCUpdateRegistry cd t p k v) = Inl (Wrapped ''UpdateRegistry'' ErrInvalidOutputLength)
      \<longleftrightarrow> (\<exists>resp s. executeProgram cd (enc_updateRegistryRequest cd k v) p (DialStream t) = (Inr resp, s)
              \<and> OutputLength resp \<noteq> 0)"
    using ex' nu by (cases r') (auto simp: RPCUpdateRegistry_def wrapErr_def)
  show "fst (RPCUpdateRegistry cd t p k v) = Inr ()
      \<longleftrightarrow> (\<exists>resp s. executeProgram cd (enc_updateRegistryRequest cd k v) p (DialStream t) = (Inr resp, s)
              \<and> OutputLength resp = 0)"
    using ex' nu by (cases r') (auto simp: RPCUpdateRegistry_def wrapErr_def)
qed


theorem registry_output_length_witness:
  "executeProgram example_codec (enc_readRegistryRequest example_codec example_key) (PayByEphemeralAccountRequest []) (DialStream host_read)
     = (Inr \<lparr>OutputLength = 74\<rparr>,
        snd (executeProgram example_codec (enc_readRegistryRequest example_codec example_key) (PayByEphemeralAccountRequest []) (DialStream host_read)))
   \<and> \<not> OutputLength \<lparr>OutputLength = 74\<rparr> < 73
   \<and> fst (stream_Read 74 (snd (executeProgram example_codec (enc_readRegistryRequest example_codec example_key) (PayByEphemeralAccountRequest []) (DialStream host_read))))
       = (example_output, None)
   \<and> buffer_after_Read 74 example_output = replicate 64 1 @ BigEndian_PutUint64 5 @ [42] @ [3]
   \<and> length (replicate 64 (1::byte)) = 64
   \<and> fst (RPCReadRegistry example_codec host_read (PayByEphemeralAccountRequest []) example_key) = Inr example_value"
proof -
  let ?p = "PayByEphemeralAccountRequest []"
  let ?ex = "executeProgram example_codec (enc_readRegistryRequest example_codec example_key) ?p (DialStream host_read)"
  let ?resp = "\<lparr>OutputLength = 74\<rparr>"
  have f1: "fst ?ex = Inr ?resp" by code_simp
  have h1: "?ex = (Inr ?resp, snd ?ex)"
    using f1 by (metis prod.collapse)
  have h2: "\<not> OutputLength ?resp < 73" by simp
  have f3: "fst (stream_Read 74 (snd ?ex)) = (example_output, None)" by code_simp
  have h3: "stream_Read (unat (OutputLength ?resp)) (snd ?ex) = ((example_output, None), snd (stream_Read 74 (snd ?ex)))"
    using f3 by (simp add: prod_eq_iff)
  have h4: "buffer_after_Read (unat (OutputLength ?resp)) example_output = replicate 64 1 @ BigEndian_PutUint64 5 @ [42] @ [3]"
    by code_simp
  have h5: "length (replicate 64 (1::byte)) = 64" by simp
  have "RPCReadRegistry example_codec host_read ?p example_key
          = (Inr \<lparr>Data = [42], Revision = 5, Type = 3, Signature = replicate 64 1\<rparr>,
             snd (stream_Read 74 (snd ?ex)))"
    using registry_output_length[of example_codec host_read ?p example_key example_value, THEN conjunct2, THEN conjunct1, rule_format,
        OF conjI[OF h1 conjI[OF h2 conjI[OF h3 conjI[OF h4 h5]]]]] .
  then have "fst (RPCReadRegistry example_codec host_read ?p example_key) = Inr example_value"
    by (simp add: example_value_def)
  moreover have "buffer_after_Read 74 example_output = replicate 64 1 @ BigEndian_PutUint64 5 @ [42] @ [3]"
    using h4 by simp
  ultimately show ?thesis using h1 h2 f3 h5 by blast
qed

text \<open>
  Claim C6. The output of a registry read is to be parsed as a 64-byte signature, the
  big-endian revision number, the data and a final type byte. \<open>RPCReadRegistry\<close> fills
  its buffer with one \<open>Read\<close> and does not look at the number of bytes that call
  returned. For a host whose 74-byte output (revision 5, data \<open>[42]\<close>, type 3) arrives
  in one piece the parts of the output are returned; for the same output arriving in pieces
  of 70 and 4 bytes the call succeeds with revision 0, data \<open>[0]\<close> and type 0, the
  zero bytes of the unfilled rest of the buffer.
\<close>

theorem RPCReadRegistry_short_read:
  "concat (incoming (mux host_read_split)) = concat (incoming (mux host_read))
   \<and> fst (RPCReadRegistry example_codec host_read (PayByEphemeralAccountRequest []) example_key)
       = Inr \<lparr>Data = [42], Revision = 5, Type = 3, Signature = replicate 64 1\<rparr>
   \<and> fst (RPCReadRegistry example_codec host_read_split (PayByEphemeralAccountRequest []) example_key)
       = Inr \<lparr>Data = [0], Revision = 0, Type = 0, Signature = replicate 64 1\<rparr>"
proof -
  have a: "concat (incoming (mux host_read_split)) = concat (incoming (mux host_read))"
    by code_simp
  have b: "fst (RPCReadRegistry example_codec host_read (PayByEphemeralAccountRequest []) example_key)
       = Inr \<lparr>Data = [42], Revision = 5, Type = 3, Signature = replicate 64 1\<rparr>"
    by code_simp
  have c: "fst (RPCReadRegistry example_codec host_read_split (PayByEphemeralAccountRequest []) example_key)
       = Inr \<lparr>Data = [0], Revision = 0, Type = 0, Signature = replicate 64 1\<rparr>"
    by code_simp
  from a b c show ?thesis by blast
qed

section \<open>Properties of the host resolver\<close>

lemma dial_addresses_char:
  "dial_addresses net host port address addrs hc =
     (case find (connects net port) addrs of
        None \<Rightarrow> Inl (ErrAllMethodsFailed address)
      | Some a \<Rightarrow> (case DialContext net (JoinHostPort a port) of Inr conn \<Rightarrow> Inr conn | Inl e \<Rightarrow> Inl (ErrDialContext e)),
      case find (connects net port) addrs of None \<Rightarrow> hc | Some a \<Rightarrow> hc(host \<mapsto> a),
      directory_events net host port addrs)"
proof (induction addrs)
  case Nil
  then show ?case by (simp add: directory_events_def)
next
  case (Cons a addrs)
  show ?case
  proof (cases "DialContext net (JoinHostPort a port)")
    case (Inl e)
    then have "\<not> connects net port a" by (simp add: connects_def)
    with Inl Cons show ?thesis by (simp add: directory_events_def)
  next
    case (Inr conn)
    then have "connects net port a" by (simp add: connects_def)
    with Inr show ?thesis by (simp add: directory_events_def hostCache_Set_def fun_upd_def)
  qed
qed

lemma directory_events_kinds:
  "EvBusHost hk \<notin> set (directory_events net host port addrs)"
  "EvCacheClear h \<notin> set (directory_events net host port addrs)"
  "EvResolve h \<notin> set (directory_events net host port addrs)"
  by (auto simp: directory_events_def split: option.splits)

lemma Dial_resolved:
  assumes "SplitHostPort net address = Inr (host, port)" "ResolveIPAddr net host = Inr ip"
  shows "Dial net hc hk address =
     (case DialContext net (JoinHostPort ip port) of Inl e \<Rightarrow> Inl (ErrDialContext e) | Inr conn \<Rightarrow> Inr conn,
      hc(host \<mapsto> ip),
      [EvResolve host, EvCacheSet host ip, EvDial (JoinHostPort ip port)])"
  using assms by (simp add: Dial_def hostCache_Set_def fun_upd_def)

lemma Dial_cached:
  assumes "SplitHostPort net address = Inr (host, port)" "ResolveIPAddr net host = Inl e"
    "hc host = Some c" "DialContext net (JoinHostPort c port) = Inr conn"
  shows "Dial net hc hk address = (Inr conn, hc, [EvResolve host, EvDial (JoinHostPort c port)])"
  using assms by (simp add: Dial_def dial_cached_def hostCache_Get_def)

lemma Dial_directory:
  assumes "SplitHostPort net address = Inr (host, port)" "ResolveIPAddr net host = Inl e"
    "hc host = None \<or> (\<exists>c. hc host = Some c \<and> \<not> connects net port c)"
  shows "Dial net hc hk address =
     (case bus_Host net hk of
        Inl e \<Rightarrow> Inl (ErrBusHost e)
      | Inr addrs \<Rightarrow>
          (case find (connects net port) addrs of
             None \<Rightarrow> Inl (ErrAllMethodsFailed address)
           | Some a \<Rightarrow> (case DialContext net (JoinHostPort a port) of Inr conn \<Rightarrow> Inr conn | Inl e \<Rightarrow> Inl (ErrDialContext e))),
      case bus_Host net hk of
        Inl e \<Rightarrow> hc(host := None)
      | Inr addrs \<Rightarrow> (case find (connects net port) addrs of None \<Rightarrow> hc(host := None) | Some a \<Rightarrow> hc(host \<mapsto> a)),
      EvResolve host
        # (case hc host of None \<Rightarrow> [] | Some c \<Rightarrow> [EvDial (JoinHostPort c port), EvCacheClear host])
        @ [EvBusHost hk]
        @ (case bus_Host net hk of Inl e \<Rightarrow> [] | Inr addrs \<Rightarrow> directory_events net host port addrs))"
proof (cases "hc host")
  case None
  then have "hc(host := None) = hc" by (simp add: fun_upd_idem)
  with None assms(1,2) show ?thesis
    by (simp add: Dial_def dial_cached_def hostCache_Get_def dial_addresses_char
        split: sum.splits option.splits)
next
  case (Some c)
  with assms(3) have "\<not> connects net port c" by simp
  then obtain e' where "DialContext net (JoinHostPort c port) = Inl e'"
    by (auto simp: connects_def split: sum.splits)
  with Some assms(1,2) show ?thesis
    by (simp add: Dial_def dial_cached_def hostCache_Get_def hostCache_Clear_def dial_addresses_char
        split: sum.splits option.splits)
qed

text \<open>
  Claim C9. For a dial of an address that splits into host and port: the first thing
  \<open>Dial\<close> does, and does once, is to resolve the host name. If the name resolves, the
  resolved address is cached and dialled and nothing else is tried. Only if it does not
  resolve is a cached address dialled, and if that connects, the connection is returned and
  the cache is left as it was. The cache entry is cleared exactly when resolution failed and
  the cached address did not connect. The host directory is asked exactly when resolution
  failed and there was no cached address or it did not connect; its addresses are then
  dialled in order up to the first that connects, which is returned and stored in the cache
  under the host name; if none connects the call fails.
\<close>

theorem Dial_order:
  assumes split: "SplitHostPort net address = Inr (host, port)"
    and res: "Dial net hc hk address = (r, hc', tr)"
  shows "(\<exists>rest. tr = EvResolve host # rest \<and> EvResolve host \<notin> set rest)
    \<and> (\<forall>ip. ResolveIPAddr net host = Inr ip \<longrightarrow>
          tr = [EvResolve host, EvCacheSet host ip, EvDial (JoinHostPort ip port)]
          \<and> hc' = hc(host \<mapsto> ip)
          \<and> r = (case DialContext net (JoinHostPort ip port) of
                   Inl e \<Rightarrow> Inl (ErrDialContext e) | Inr conn \<Rightarrow> Inr conn))
    \<and> (\<forall>e c. ResolveIPAddr net host = Inl e \<and> hc host = Some c \<longrightarrow>
          (\<exists>rest. tr = EvResolve host # EvDial (JoinHostPort c port) # rest)
          \<and> (\<forall>conn. DialContext net (JoinHostPort c port) = Inr conn \<longrightarrow>
                r = Inr conn \<and> hc' = hc \<and> tr = [EvResolve host, EvDial (JoinHostPort c port)]))
    \<and> (EvCacheClear host \<in> set tr \<longleftrightarrow>
          (\<exists>e c. ResolveIPAddr net host = Inl e \<and> hc host = Some c \<and> \<not> connects net port c))
    \<and> (EvBusHost hk \<in> set tr \<longleftrightarrow>
          (\<exists>e. ResolveIPAddr net host = Inl e)
          \<and> (hc host = None \<or> (\<exists>c. hc host = Some c \<and> \<not> connects net port c)))
    \<and> (\<forall>addrs. EvBusHost hk \<in> set tr \<and> bus_Host net hk = Inr addrs \<longrightarrow>
          (\<exists>before. tr = before @ EvBusHost hk # directory_events net host port addrs
                    \<and> EvBusHost hk \<notin> set before)
          \<and> (case find (connects net port) addrs of
                None \<Rightarrow> r = Inl (ErrAllMethodsFailed address) \<and> hc' = hc(host := None)
              | Some a \<Rightarrow> (\<exists>conn. DialContext net (JoinHostPort a port) = Inr conn \<and> r = Inr conn)
                          \<and> hc' = hc(host \<mapsto> a)))"
proof (cases "ResolveIPAddr net host")
  case (Inr ip)
  from Dial_resolved[of net address host port ip hc hk, OF split Inr] res
  have "r = (case DialContext net (JoinHostPort ip port) of Inl e \<Rightarrow> Inl (ErrDialContext e) | Inr conn \<Rightarrow> Inr conn)"
    and "hc' = hc(host \<mapsto> ip)"
    and "tr = [EvResolve host, EvCacheSet host ip, EvDial (JoinHostPort ip port)]"
    by simp_all
  with Inr show ?thesis by simp
next
  case (Inl e)
  show ?thesis
  proof (cases "hc host = None \<or> (\<exists>c. hc host = Some c \<and> \<not> connects net port c)")
    case False
    then obtain c where c: "hc host = Some c" "connects net port c" by auto
    then obtain conn where conn: "DialContext net (JoinHostPort c port) = Inr conn"
      by (auto simp: connects_def split: sum.splits)
    from Dial_cached[of net address host port e hc c conn hk, OF split Inl c(1) conn] res
    have "r = Inr conn" "hc' = hc" "tr = [EvResolve host, EvDial (JoinHostPort c port)]"
      by simp_all
    with Inl c conn show ?thesis by simp
  next
    case True
    note D = Dial_directory[of net address host port e hc hk, OF split Inl True]
    have tr: "tr = EvResolve host
        # (case hc host of None \<Rightarrow> [] | Some c \<Rightarrow> [EvDial (JoinHostPort c port), EvCacheClear host])
        @ [EvBusHost hk]
        @ (case bus_Host net hk of Inl e \<Rightarrow> [] | Inr addrs \<Rightarrow> directory_events net host port addrs)"
      using D res by simp
    have r: "r = (case bus_Host net hk of
        Inl e \<Rightarrow> Inl (ErrBusHost e)
      | Inr addrs \<Rightarrow>
          (case find (connects net port) addrs of
             None \<Rightarrow> Inl (ErrAllMethodsFailed address)
           | Some a \<Rightarrow> (case DialContext net (JoinHostPort a port) of Inr conn \<Rightarrow> Inr conn | Inl e \<Rightarrow> Inl (ErrDialContext e))))"
      using D res by simp
    have hc': "hc' = (case bus_Host net hk of
        Inl e \<Rightarrow> hc(host := None)
      | Inr addrs \<Rightarrow> (case find (connects net port) addrs of None \<Rightarrow> hc(host := None) | Some a \<Rightarrow> hc(host \<mapsto> a)))"
      using D res by simp
    have A: "\<exists>rest. tr = EvResolve host # rest \<and> EvResolve host \<notin> set rest"
      using tr directory_events_kinds(3)[of host net host port]
      by (auto split: option.splits sum.splits)
    have B: "\<forall>ip. ResolveIPAddr net host = Inr ip \<longrightarrow>
          tr = [EvResolve host, EvCacheSet host ip, EvDial (JoinHostPort ip port)]
          \<and> hc' = hc(host \<mapsto> ip)
          \<and> r = (case DialContext net (JoinHostPort ip port) of
                   Inl e \<Rightarrow> Inl (ErrDialContext e) | Inr conn \<Rightarrow> Inr conn)"
      using Inl by simp
    have C: "\<forall>e c. ResolveIPAddr net host = Inl e \<and> hc host = Some c \<longrightarrow>
          (\<exists>rest. tr = EvResolve host # EvDial (JoinHostPort c port) # rest)
          \<and> (\<forall>conn. DialContext net (JoinHostPort c port) = Inr conn \<longrightarrow>
                r = Inr conn \<and> hc' = hc \<and> tr = [EvResolve host, EvDial (JoinHostPort c port)])"
      using True tr by (auto simp: connects_def)
    have D': "EvCacheClear host \<in> set tr \<longleftrightarrow>
          (\<exists>e c. ResolveIPAddr net host = Inl e \<and> hc host = Some c \<and> \<not> connects net port c)"
      using True tr Inl directory_events_kinds(2)[of host net host port]
      by (auto split: option.splits sum.splits)
    have E: "EvBusHost hk \<in> set tr \<longleftrightarrow>
          (\<exists>e. ResolveIPAddr net host = Inl e)
          \<and> (hc host = None \<or> (\<exists>c. hc host = Some c \<and> \<not> connects net port c))"
      using True tr Inl by simp
    have F: "\<forall>addrs. EvBusHost hk \<in> set tr \<and> bus_Host net hk = Inr addrs \<longrightarrow>
          (\<exists>before. tr = before @ EvBusHost hk # directory_events net host port addrs
                    \<and> EvBusHost hk \<notin> set before)
          \<and> (case find (connects net port) addrs of
                None \<Rightarrow> r = Inl (ErrAllMethodsFailed address) \<and> hc' = hc(host := None)
              | Some a \<Rightarrow> (\<exists>conn. DialContext net (JoinHostPort a port) = Inr conn \<and> r = Inr conn)
                          \<and> hc' = hc(host \<mapsto> a))"
    proof (intro allI impI, elim conjE)
      fix addrs
      assume b: "bus_Host net hk = Inr addrs"
      let ?before = "EvResolve host # (case hc host of None \<Rightarrow> [] | Some c \<Rightarrow> [EvDial (JoinHostPort c port), EvCacheClear host])"
      have 1: "tr = ?before @ EvBusHost hk # directory_events net host port addrs"
        using tr b by simp
      have 2: "EvBusHost hk \<notin> set ?before" by (simp split: option.splits)
      have 3: "case find (connects net port) addrs of
                None \<Rightarrow> r = Inl (ErrAllMethodsFailed address) \<and> hc' = hc(host := None)
              | Some a \<Rightarrow> (\<exists>conn. DialContext net (JoinHostPort a port) = Inr conn \<and> r = Inr conn)
                          \<and> hc' = hc(host \<mapsto> a)"
      proof (cases "find (connects net port) addrs")
        case None
        then show ?thesis using r hc' b by simp
      next
        case (Some a)
        then have "connects net port a" by (auto simp: find_Some_iff)
        then obtain conn where "DialContext net (JoinHostPort a port) = Inr conn"
          by (auto simp: connects_def split: sum.splits)
        then show ?thesis using Some r hc' b by simp
      qed
      from 1 2 3 show "(\<exists>before. tr = before @ EvBusHost hk # directory_events net host port addrs
                    \<and> EvBusHost hk \<notin> set before)
          \<and> (case find (connects net port) addrs of
                None \<Rightarrow> r = Inl (ErrAllMethodsFailed address) \<and> hc' = hc(host := None)
              | Some a \<Rightarrow> (\<exists>conn. DialContext net (JoinHostPort a port) = Inr conn \<and> r = Inr conn)
                          \<and> hc' = hc(host \<mapsto> a))"
        by blast
    qed
    from A B C D' E F show ?thesis by blast
  qed
qed


theorem Dial_order_witness:
  "SplitHostPort example_network ''host.example:9983'' = Inr (''host.example'', ''9983'')
   \<and> ResolveIPAddr example_network ''host.example'' = Inl ''no such host''
   \<and> example_cache ''host.example'' = Some ''10.0.0.9''
   \<and> bus_Host example_network 1 = Inr [''10.0.0.1'', ''10.0.0.2'', ''10.0.0.3'']
   \<and> snd (snd (Dial example_network example_cache 1 ''host.example:9983''))
       = [EvResolve ''host.example'', EvDial ''10.0.0.9:9983'', EvCacheClear ''host.example'',
          EvBusHost 1, EvDial ''10.0.0.1:9983'', EvDial ''10.0.0.2:9983'',
          EvCacheSet ''host.example'' ''10.0.0.2'']
   \<and> fst (Dial example_network example_cache 1 ''host.example:9983'') = Inr 7
   \<and> fst (snd (Dial example_network example_cache 1 ''host.example:9983''))
       = example_cache(''host.example'' \<mapsto> ''10.0.0.2'')"
proof -
  let ?D = "Dial example_network example_cache 1 ''host.example:9983''"
  let ?addrs = "[''10.0.0.1'', ''10.0.0.2'', ''10.0.0.3'']"
  have s: "SplitHostPort example_network ''host.example:9983'' = Inr (''host.example'', ''9983'')"
    by (simp add: example_network_def)
  have rs: "ResolveIPAddr example_network ''host.example'' = Inl ''no such host''"
    by (simp add: example_network_def)
  have c: "example_cache ''host.example'' = Some ''10.0.0.9''"
    by (simp add: example_cache_def)
  have b: "bus_Host example_network 1 = Inr ?addrs"
    by (simp add: example_network_def)
  have d: "?D = (fst ?D, fst (snd ?D), snd (snd ?D))" by simp
  have tr: "snd (snd ?D)
       = [EvResolve ''host.example'', EvDial ''10.0.0.9:9983'', EvCacheClear ''host.example'',
          EvBusHost 1, EvDial ''10.0.0.1:9983'', EvDial ''10.0.0.2:9983'',
          EvCacheSet ''host.example'' ''10.0.0.2'']"
    by code_simp
  have m: "EvBusHost 1 \<in> set (snd (snd ?D))" by (simp only: tr) simp
  have f: "find (connects example_network ''9983'') ?addrs = Some ''10.0.0.2''"
    by code_simp
  have dc: "DialContext example_network (JoinHostPort ''10.0.0.2'' ''9983'') = Inr 7"
    by code_simp
  note T = Dial_order[OF s d]
  from T have "\<forall>addrs. EvBusHost 1 \<in> set (snd (snd ?D)) \<and> bus_Host example_network 1 = Inr addrs \<longrightarrow>
          (\<exists>before. snd (snd ?D) = before @ EvBusHost 1 # directory_events example_network ''host.example'' ''9983'' addrs
                    \<and> EvBusHost 1 \<notin> set before)
          \<and> (case find (connects example_network ''9983'') addrs of
                None \<Rightarrow> fst ?D = Inl (ErrAllMethodsFailed ''host.example:9983'')
                        \<and> fst (snd ?D) = example_cache(''host.example'' := None)
              | Some a \<Rightarrow> (\<exists>conn. DialContext example_network (JoinHostPort a ''9983'') = Inr conn \<and> fst ?D = Inr conn)
                          \<and> fst (snd ?D) = example_cache(''host.example'' \<mapsto> a))"
    by blast
  with m b have "case find (connects example_network ''9983'') ?addrs of
                None \<Rightarrow> fst ?D = Inl (ErrAllMethodsFailed ''host.example:9983'')
                        \<and> fst (snd ?D) = example_cache(''host.example'' := None)
              | Some a \<Rightarrow> (\<exists>conn. DialContext example_network (JoinHostPort a ''9983'') = Inr conn \<and> fst ?D = Inr conn)
                          \<and> fst (snd ?D) = example_cache(''host.example'' \<mapsto> a)"
    by blast
  then have "(\<exists>conn. DialContext example_network (JoinHostPort ''10.0.0.2'' ''9983'') = Inr conn \<and> fst ?D = Inr conn)
      \<and> fst (snd ?D) = example_cache(''host.example'' \<mapsto> ''10.0.0.2'')"
    by (simp only: f option.case)
  then have "fst ?D = Inr 7 \<and> fst (snd ?D) = example_cache(''host.example'' \<mapsto> ''10.0.0.2'')"
    using dc by auto
  with s rs c b tr show ?thesis by blast
qed

section \<open>Properties of the contract ledger\<close>

lemma spent_on_Nil [simp]: "spent_on f a [] = 0"
  by (simp add: spent_on_def)




lemma with_spending_Nil [simp]: "with_spending [] c = c"
  by (simp add: with_spending_def)

















lemma contract_Inr:
  assumes "contract db rf = Inr (old, h)" "rf \<noteq> 0"
  shows "Take (filter (\<lambda>x. c_FCID x = rf) (contracts db)) = Inr old" and "h = preload_Host db old"
    and "c_FCID old = rf"
proof -
  from assms have t: "Take (filter (\<lambda>x. c_FCID x = rf) (contracts db)) = Inr old"
    and h: "h = preload_Host db old"
    by (auto simp: contract_def where_struct_def split: sum.splits)
  show "Take (filter (\<lambda>x. c_FCID x = rf) (contracts db)) = Inr old" by (rule t)
  show "h = preload_Host db old" by (rule h)
  from t obtain ys where "filter (\<lambda>x. c_FCID x = rf) (contracts db) = old # ys"
    by (auto simp: Take_def split: list.splits)
  then have "old \<in> set (filter (\<lambda>x. c_FCID x = rf) (contracts db))" by simp
  then show "c_FCID old = rf" by simp
qed

lemma create_archived_contract_Inr:
  assumes "create_archived_contract tx ac = Inr tx1"
  shows "tx1 = tx\<lparr>archived_contracts := archived_contracts tx @ [ac\<lparr>ac_ID := next_archived_contract_id tx\<rparr>],
                   next_archived_contract_id := Suc (next_archived_contract_id tx)\<rparr>"
  using assms by (simp add: create_archived_contract_def split: if_splits)

lemma removeContract_Inr:
  assumes "removeContract tx rf = Inr tx2"
  shows "rf \<noteq> 0" and "contracts tx2 = filter (\<lambda>c. c_FCID c \<noteq> rf) (contracts tx)"
    and "archived_contracts tx2 = archived_contracts tx" and "hosts tx2 = hosts tx"
    and "next_contract_id tx2 = next_contract_id tx"
  using assms by (auto simp: removeContract_def Let_def split: if_splits)

lemma addContract_Inr:
  assumes "addContract tx c tc sh rf = Inr (new, tx3)"
  shows "\<exists>hid. new = \<lparr>c_ID = next_contract_id tx, c_FCID = rev_ID c, c_HostID = hid,
                         c_RenewedFrom = rf, c_StartHeight = sh,
                         c_TotalCost = tc, c_UploadSpending = 0,
                         c_DownloadSpending = 0, c_FundAccountSpending = 0\<rparr>"
    and "contracts tx3 = contracts tx @ [new]" and "archived_contracts tx3 = archived_contracts tx"
  using assms by (auto simp: addContract_def bind_err_def Let_def split: sum.splits if_splits)

lemma renew_tx_Inr:
  assumes "renew_tx c tc sh rf db = Inr (new, tx)"
  shows "\<exists>old hid. Take (filter (\<lambda>x. c_FCID x = rf) (contracts db)) = Inr old \<and> rf \<noteq> 0
      \<and> archived_contracts tx = archived_contracts db @
           [\<lparr>ac_ID = next_archived_contract_id db, ac_FCID = rf,
             ac_Host = h_PublicKey (preload_Host db old),
             ac_RenewedTo = rev_ID c, ac_Reason = ''renewed'',
             ac_UploadSpending = c_UploadSpending old,
             ac_DownloadSpending = c_DownloadSpending old,
             ac_FundAccountSpending = c_FundAccountSpending old,
             ac_StartHeight = c_StartHeight old\<rparr>]
      \<and> contracts tx = filter (\<lambda>x. c_FCID x \<noteq> rf) (contracts db) @ [new]
      \<and> new = \<lparr>c_ID = next_contract_id db, c_FCID = rev_ID c, c_HostID = hid,
                c_RenewedFrom = rf, c_StartHeight = sh,
                c_TotalCost = tc, c_UploadSpending = 0,
                c_DownloadSpending = 0, c_FundAccountSpending = 0\<rparr>"
proof -
  from assms obtain old h where c: "contract db rf = Inr (old, h)"
    by (cases "contract db rf") (auto simp: renew_tx_def bind_err_def)
  let ?ac = "\<lparr>ac_ID = 0, ac_FCID = c_FCID old, ac_Host = h_PublicKey h,
                  ac_RenewedTo = rev_ID c, ac_Reason = archivalReasonRenewed,
                  ac_UploadSpending = c_UploadSpending old,
                  ac_DownloadSpending = c_DownloadSpending old,
                  ac_FundAccountSpending = c_FundAccountSpending old,
                  ac_StartHeight = c_StartHeight old\<rparr>"
  from assms c obtain tx1 where a: "create_archived_contract db ?ac = Inr tx1"
    by (cases "create_archived_contract db ?ac") (auto simp: renew_tx_def bind_err_def)
  from assms c a obtain tx2 where r: "removeContract tx1 rf = Inr tx2"
    by (cases "removeContract tx1 rf") (auto simp: renew_tx_def bind_err_def)
  from assms c a r have ad: "addContract tx2 c tc sh rf = Inr (new, tx)"
    by (simp add: renew_tx_def bind_err_def)
  note R = removeContract_Inr[OF r]
  note C = contract_Inr[OF c R(1)]
  note A = create_archived_contract_Inr[OF a]
  note D = addContract_Inr[OF ad]
  from D(1) obtain hid where new: "new = \<lparr>c_ID = next_contract_id tx2, c_FCID = rev_ID c, c_HostID = hid,
                         c_RenewedFrom = rf, c_StartHeight = sh,
                         c_TotalCost = tc, c_UploadSpending = 0,
                         c_DownloadSpending = 0, c_FundAccountSpending = 0\<rparr>" by blast
  have n: "next_contract_id tx2 = next_contract_id db" using R(5) A by simp
  have arch: "archived_contracts tx = archived_contracts db @ [?ac\<lparr>ac_ID := next_archived_contract_id db\<rparr>]"
    using D(3) R(3) A by simp
  have con: "contracts tx = filter (\<lambda>x. c_FCID x \<noteq> rf) (contracts db) @ [new]"
    using D(2) R(2) A by simp
  show ?thesis
    apply (rule exI[of _ old], rule exI[of _ hid])
    using C(1) R(1) arch con new n C(2) C(3)
    by (simp add: archivalReasonRenewed_def)
qed

text \<open>
  Claim C4. \<open>AddRenewedContract\<close> is atomic. If it returns an error the database is
  unchanged. If it succeeds, the archive has gained exactly one row, the copy of the old
  contract with \<open>RenewedTo\<close> the identifier of the new contract, the reason
  \<open>renewed\<close> and the old spending totals; the contracts table has lost the old contract
  and gained the new one, with \<open>RenewedFrom\<close> the old identifier and no spending.
\<close>

theorem AddRenewedContract_atomic:
  assumes "AddRenewedContract db c totalCost startHeight renewedFrom = (r, db')"
  shows "case r of
           Inl e \<Rightarrow> db' = db
         | Inr meta \<Rightarrow>
             (\<exists>old hid.
                Take (filter (\<lambda>x. c_FCID x = renewedFrom) (contracts db)) = Inr old
                \<and> renewedFrom \<noteq> 0
                \<and> archived_contracts db' = archived_contracts db @
                     [\<lparr>ac_ID = next_archived_contract_id db, ac_FCID = renewedFrom,
                       ac_Host = h_PublicKey (preload_Host db old),
                       ac_RenewedTo = rev_ID c, ac_Reason = ''renewed'',
                       ac_UploadSpending = c_UploadSpending old,
                       ac_DownloadSpending = c_DownloadSpending old,
                       ac_FundAccountSpending = c_FundAccountSpending old,
                       ac_StartHeight = c_StartHeight old\<rparr>]
                \<and> contracts db' = filter (\<lambda>x. c_FCID x \<noteq> renewedFrom) (contracts db) @
                     [\<lparr>c_ID = next_contract_id db, c_FCID = rev_ID c, c_HostID = hid,
                       c_RenewedFrom = renewedFrom, c_StartHeight = startHeight,
                       c_TotalCost = totalCost, c_UploadSpending = 0,
                       c_DownloadSpending = 0, c_FundAccountSpending = 0\<rparr>]
                \<and> cm_ID meta = rev_ID c \<and> cm_RenewedFrom meta = renewedFrom)"
proof (cases "renew_tx c totalCost startHeight renewedFrom db")
  case (Inl e)
  with assms show ?thesis by (auto simp: AddRenewedContract_def Transaction_def)
next
  case (Inr p)
  obtain new tx where p: "p = (new, tx)" by (cases p)
  from assms Inr p have r: "r = Inr (dbContract_convert new zero_dbHost)" and d: "db' = tx"
    by (auto simp: AddRenewedContract_def Transaction_def)
  from renew_tx_Inr[OF Inr[unfolded p]] obtain old hid where
    o: "Take (filter (\<lambda>x. c_FCID x = renewedFrom) (contracts db)) = Inr old" "renewedFrom \<noteq> 0"
     "archived_contracts tx = archived_contracts db @
           [\<lparr>ac_ID = next_archived_contract_id db, ac_FCID = renewedFrom,
             ac_Host = h_PublicKey (preload_Host db old),
             ac_RenewedTo = rev_ID c, ac_Reason = ''renewed'',
             ac_UploadSpending = c_UploadSpending old,
             ac_DownloadSpending = c_DownloadSpending old,
             ac_FundAccountSpending = c_FundAccountSpending old,
             ac_StartHeight = c_StartHeight old\<rparr>]"
     "contracts tx = filter (\<lambda>x. c_FCID x \<noteq> renewedFrom) (contracts db) @ [new]"
     "new = \<lparr>c_ID = next_contract_id db, c_FCID = rev_ID c, c_HostID = hid,
                c_RenewedFrom = renewedFrom, c_StartHeight = startHeight,
                c_TotalCost = totalCost, c_UploadSpending = 0,
                c_DownloadSpending = 0, c_FundAccountSpending = 0\<rparr>"
    by blast
  have m: "cm_ID (dbContract_convert new zero_dbHost) = rev_ID c"
    "cm_RenewedFrom (dbContract_convert new zero_dbHost) = renewedFrom"
    using o(5) by (simp_all add: dbContract_convert_def)
  show ?thesis
    unfolding r d sum.case
    apply (rule exI[of _ old], rule exI[of _ hid])
    using o m by simp
qed


theorem AddRenewedContract_atomic_witness:
  "fst (AddRenewedContract example_store \<lparr>rev_ID = 201, rev_HostKey = 10\<rparr> 5000 77 101)
     = Inr \<lparr>cm_ID = 201, cm_HostIP = [], cm_HostKey = 0, cm_StartHeight = 77, cm_RenewedFrom = 101,
            cm_TotalCost = 5000, cm_Spending = \<lparr>Uploads = 0, Downloads = 0, FundAccount = 0\<rparr>\<rparr>
   \<and> map (\<lambda>a. (ac_FCID a, ac_RenewedTo a, ac_Reason a, ac_UploadSpending a, ac_DownloadSpending a, ac_FundAccountSpending a))
        (archived_contracts (snd (AddRenewedContract example_store \<lparr>rev_ID = 201, rev_HostKey = 10\<rparr> 5000 77 101)))
       = [(101, 201, ''renewed'', 10, 20, 30)]
   \<and> map (\<lambda>c. (c_FCID c, c_RenewedFrom c))
        (contracts (snd (AddRenewedContract example_store \<lparr>rev_ID = 201, rev_HostKey = 10\<rparr> 5000 77 101)))
       = [(102, 0), (103, 0), (104, 0), (201, 101)]
   \<and> fst (AddRenewedContract example_store \<lparr>rev_ID = 201, rev_HostKey = 99\<rparr> 5000 77 101) = Inl ErrRecordNotFound
   \<and> snd (AddRenewedContract example_store \<lparr>rev_ID = 201, rev_HostKey = 99\<rparr> 5000 77 101) = example_store"
proof -
  let ?ok = "AddRenewedContract example_store \<lparr>rev_ID = 201, rev_HostKey = 10\<rparr> 5000 77 101"
  let ?ko = "AddRenewedContract example_store \<lparr>rev_ID = 201, rev_HostKey = 99\<rparr> 5000 77 101"
  let ?meta = "\<lparr>cm_ID = 201, cm_HostIP = [], cm_HostKey = 0, cm_StartHeight = 77, cm_RenewedFrom = 101,
            cm_TotalCost = 5000, cm_Spending = \<lparr>Uploads = 0, Downloads = 0, FundAccount = 0\<rparr>\<rparr>"
  have f1: "fst ?ok = Inr ?meta" by code_simp
  have h1: "?ok = (Inr ?meta, snd ?ok)" using f1 by (metis prod.collapse)
  have f2: "fst ?ko = Inl ErrRecordNotFound" by code_simp
  have h2: "?ko = (Inl ErrRecordNotFound, snd ?ko)" using f2 by (metis prod.collapse)
  from AddRenewedContract_atomic[OF h2] have k: "snd ?ko = example_store" by simp
  from AddRenewedContract_atomic[OF h1] obtain old hid where
    o: "Take (filter (\<lambda>x. c_FCID x = 101) (contracts example_store)) = Inr old"
      "archived_contracts (snd ?ok) = archived_contracts example_store @
                     [\<lparr>ac_ID = next_archived_contract_id example_store, ac_FCID = 101,
                       ac_Host = h_PublicKey (preload_Host example_store old),
                       ac_RenewedTo = rev_ID \<lparr>rev_ID = 201, rev_HostKey = 10\<rparr>, ac_Reason = ''renewed'',
                       ac_UploadSpending = c_UploadSpending old,
                       ac_DownloadSpending = c_DownloadSpending old,
                       ac_FundAccountSpending = c_FundAccountSpending old,
                       ac_StartHeight = c_StartHeight old\<rparr>]"
      "contracts (snd ?ok) = filter (\<lambda>x. c_FCID x \<noteq> 101) (contracts example_store) @
                     [\<lparr>c_ID = next_contract_id example_store, c_FCID = rev_ID \<lparr>rev_ID = 201, rev_HostKey = 10\<rparr>, c_HostID = hid,
                       c_RenewedFrom = 101, c_StartHeight = 77,
                       c_TotalCost = 5000, c_UploadSpending = 0,
                       c_DownloadSpending = 0, c_FundAccountSpending = 0\<rparr>]"
    by auto
  have old: "c_UploadSpending old = 10" "c_DownloadSpending old = 20" "c_FundAccountSpending old = 30"
    using o(1) by (auto simp: example_store_def Take_def)
  have a: "map (\<lambda>a. (ac_FCID a, ac_RenewedTo a, ac_Reason a, ac_UploadSpending a, ac_DownloadSpending a, ac_FundAccountSpending a))
        (archived_contracts (snd ?ok)) = [(101, 201, ''renewed'', 10, 20, 30)]"
    unfolding o(2) using old by (simp add: example_store_def)
  have c: "map (\<lambda>c. (c_FCID c, c_RenewedFrom c)) (contracts (snd ?ok)) = [(102, 0), (103, 0), (104, 0), (201, 101)]"
    unfolding o(3) by (simp add: example_store_def)
  from f1 a c f2 k show ?thesis by blast
qed

end
